theory Spec2Isabelle
  imports Complex_Main "HOL-Library.Word"
begin

section \<open>Graphics lifetime tokens (IGraphicsDataFactory.hpp)\<close>

text \<open>
  A pointer is an \<open>option\<close>: \<open>None\<close> is \<open>nullptr\<close>. The factory behind
  \<open>m_factory\<close> is an abstract backend; what a token does to it is the sequence of
  \<open>destroyData\<close> and \<open>destroyPool\<close> calls it makes, kept as a call log that every
  operation threads through.
\<close>

datatype ('f, 'd, 'p) factory_call =
    DestroyData 'f 'd
  | DestroyPool 'f 'p

record ('f, 'd) GraphicsDataToken =
  m_factory :: "'f option"
  m_data :: "'d option"

record ('f, 'p) GraphicsBufferPoolToken =
  pool_m_factory :: "'f option"
  m_pool :: "'p option"

text \<open>\<open>GraphicsDataToken() = default\<close>: both members start as \<open>nullptr\<close>.\<close>

definition GraphicsDataToken_default :: "('f, 'd) GraphicsDataToken" where
  "GraphicsDataToken_default = \<lparr>m_factory = None, m_data = None\<rparr>"

definition GraphicsBufferPoolToken_default :: "('f, 'p) GraphicsBufferPoolToken" where
  "GraphicsBufferPoolToken_default = \<lparr>pool_m_factory = None, m_pool = None\<rparr>"

text \<open>\<open>void doDestroy()\<close> of GraphicsDataToken.\<close>

definition GraphicsDataToken_doDestroy ::
  "('f, 'd) GraphicsDataToken \<Rightarrow> ('f, 'd, 'p) factory_call list \<Rightarrow>
   ('f, 'd) GraphicsDataToken \<times> ('f, 'd, 'p) factory_call list" where
  "GraphicsDataToken_doDestroy t calls =
     (case (m_factory t, m_data t) of
        (Some f, Some d) \<Rightarrow>
          (t\<lparr>m_factory := None, m_data := None\<rparr>, calls @ [DestroyData f d])
      | _ \<Rightarrow> (t, calls))"

text \<open>\<open>~GraphicsDataToken() {doDestroy();}\<close>\<close>

definition GraphicsDataToken_dtor ::
  "('f, 'd) GraphicsDataToken \<Rightarrow> ('f, 'd, 'p) factory_call list \<Rightarrow>
   ('f, 'd) GraphicsDataToken \<times> ('f, 'd, 'p) factory_call list" where
  "GraphicsDataToken_dtor t calls = GraphicsDataToken_doDestroy t calls"

text \<open>\<open>operator bool() const {return m_factory && m_data;}\<close>\<close>

definition GraphicsDataToken_bool :: "('f, 'd) GraphicsDataToken \<Rightarrow> bool" where
  "GraphicsDataToken_bool t = (case (m_factory t, m_data t) of (Some f, Some d) \<Rightarrow> True | _ \<Rightarrow> False)"

text \<open>
  \<open>GraphicsDataToken(GraphicsDataToken&& other)\<close>: the result is the new token and
  what is left of \<open>other\<close>.
\<close>

definition GraphicsDataToken_move ::
  "('f, 'd) GraphicsDataToken \<Rightarrow> ('f, 'd) GraphicsDataToken \<times> ('f, 'd) GraphicsDataToken" where
  "GraphicsDataToken_move other =
     (\<lparr>m_factory = m_factory other, m_data = m_data other\<rparr>,
      other\<lparr>m_factory := None, m_data := None\<rparr>)"

text \<open>
  \<open>GraphicsDataToken& operator=(GraphicsDataToken&& other)\<close>, for two distinct
  objects: the result is the assigned token, what is left of \<open>other\<close>, and the call log.
\<close>

definition GraphicsDataToken_move_assign ::
  "('f, 'd) GraphicsDataToken \<Rightarrow> ('f, 'd) GraphicsDataToken \<Rightarrow> ('f, 'd, 'p) factory_call list \<Rightarrow>
   ('f, 'd) GraphicsDataToken \<times> ('f, 'd) GraphicsDataToken \<times> ('f, 'd, 'p) factory_call list" where
  "GraphicsDataToken_move_assign this other calls =
     (let (this1, calls1) = GraphicsDataToken_doDestroy this calls
      in (this1\<lparr>m_factory := m_factory other, m_data := m_data other\<rparr>,
          other\<lparr>m_factory := None, m_data := None\<rparr>,
          calls1))"

text \<open>The same members of GraphicsBufferPoolToken.\<close>

definition GraphicsBufferPoolToken_doDestroy ::
  "('f, 'p) GraphicsBufferPoolToken \<Rightarrow> ('f, 'd, 'p) factory_call list \<Rightarrow>
   ('f, 'p) GraphicsBufferPoolToken \<times> ('f, 'd, 'p) factory_call list" where
  "GraphicsBufferPoolToken_doDestroy t calls =
     (case (pool_m_factory t, m_pool t) of
        (Some f, Some p) \<Rightarrow>
          (t\<lparr>pool_m_factory := None, m_pool := None\<rparr>, calls @ [DestroyPool f p])
      | _ \<Rightarrow> (t, calls))"

definition GraphicsBufferPoolToken_dtor ::
  "('f, 'p) GraphicsBufferPoolToken \<Rightarrow> ('f, 'd, 'p) factory_call list \<Rightarrow>
   ('f, 'p) GraphicsBufferPoolToken \<times> ('f, 'd, 'p) factory_call list" where
  "GraphicsBufferPoolToken_dtor t calls = GraphicsBufferPoolToken_doDestroy t calls"

definition GraphicsBufferPoolToken_bool :: "('f, 'p) GraphicsBufferPoolToken \<Rightarrow> bool" where
  "GraphicsBufferPoolToken_bool t =
     (case (pool_m_factory t, m_pool t) of (Some f, Some p) \<Rightarrow> True | _ \<Rightarrow> False)"

definition GraphicsBufferPoolToken_move ::
  "('f, 'p) GraphicsBufferPoolToken \<Rightarrow>
   ('f, 'p) GraphicsBufferPoolToken \<times> ('f, 'p) GraphicsBufferPoolToken" where
  "GraphicsBufferPoolToken_move other =
     (\<lparr>pool_m_factory = pool_m_factory other, m_pool = m_pool other\<rparr>,
      other\<lparr>pool_m_factory := None, m_pool := None\<rparr>)"

definition GraphicsBufferPoolToken_move_assign ::
  "('f, 'p) GraphicsBufferPoolToken \<Rightarrow> ('f, 'p) GraphicsBufferPoolToken \<Rightarrow>
   ('f, 'd, 'p) factory_call list \<Rightarrow>
   ('f, 'p) GraphicsBufferPoolToken \<times> ('f, 'p) GraphicsBufferPoolToken \<times>
   ('f, 'd, 'p) factory_call list" where
  "GraphicsBufferPoolToken_move_assign this other calls =
     (let (this1, calls1) = GraphicsBufferPoolToken_doDestroy this calls
      in (this1\<lparr>pool_m_factory := pool_m_factory other, m_pool := m_pool other\<rparr>,
          other\<lparr>pool_m_factory := None, m_pool := None\<rparr>,
          calls1))"

text \<open>
  A token is dropped by its destructor or by an explicit \<open>doDestroy\<close>; a history of
  drops of one token is a list of these, run in order.
\<close>

datatype drop = Dtor | DoDestroy

fun data_drop ::
  "drop \<Rightarrow> ('f, 'd) GraphicsDataToken \<times> ('f, 'd, 'p) factory_call list \<Rightarrow>
   ('f, 'd) GraphicsDataToken \<times> ('f, 'd, 'p) factory_call list" where
  "data_drop Dtor (t, calls) = GraphicsDataToken_dtor t calls"
| "data_drop DoDestroy (t, calls) = GraphicsDataToken_doDestroy t calls"

fun data_drops ::
  "drop list \<Rightarrow> ('f, 'd) GraphicsDataToken \<times> ('f, 'd, 'p) factory_call list \<Rightarrow>
   ('f, 'd) GraphicsDataToken \<times> ('f, 'd, 'p) factory_call list" where
  "data_drops [] s = s"
| "data_drops (x # xs) s = data_drops xs (data_drop x s)"

fun pool_drop ::
  "drop \<Rightarrow> ('f, 'p) GraphicsBufferPoolToken \<times> ('f, 'd, 'p) factory_call list \<Rightarrow>
   ('f, 'p) GraphicsBufferPoolToken \<times> ('f, 'd, 'p) factory_call list" where
  "pool_drop Dtor (t, calls) = GraphicsBufferPoolToken_dtor t calls"
| "pool_drop DoDestroy (t, calls) = GraphicsBufferPoolToken_doDestroy t calls"

fun pool_drops ::
  "drop list \<Rightarrow> ('f, 'p) GraphicsBufferPoolToken \<times> ('f, 'd, 'p) factory_call list \<Rightarrow>
   ('f, 'p) GraphicsBufferPoolToken \<times> ('f, 'd, 'p) factory_call list" where
  "pool_drops [] s = s"
| "pool_drops (x # xs) s = pool_drops xs (pool_drop x s)"

section \<open>HID hot-plug listener (CHIDListenerIOKit.cpp)\<close>

text \<open>
  \<open>CDeviceToken(vid, pid, manuf, product, device)\<close>: the type \<open>'h\<close> is the OS device
  handle (\<open>IOHIDDeviceRef\<close>).
\<close>

record 'h CDeviceToken =
  m_vendorId :: int
  m_productId :: int
  m_vendorName :: string
  m_productName :: string
  m_devHandle :: "'h"

text \<open>
  Modelled from the spec: CDeviceFinder (inputdev/CDeviceFinder.hpp is not among the
  sources). The spec gives "Finder: a set of tokens keyed by OS handle" with
  \<open>has_token(handle) \<rightarrow> bool\<close>, \<open>insert_token(token)\<close> and \<open>remove_token(handle)\<close>.
  The tokens are kept as a list so that two tokens with one handle would be visible;
  \<open>insertToken\<close> adds its token without looking, so that whatever keeps the handles
  unique is the listener's own test.
\<close>

definition hasToken :: "'h CDeviceToken list \<Rightarrow> 'h \<Rightarrow> bool" where
  "hasToken tokens h = (h \<in> set (map m_devHandle tokens))"

definition insertToken :: "'h CDeviceToken list \<Rightarrow> 'h CDeviceToken \<Rightarrow> 'h CDeviceToken list" where
  "insertToken tokens tok = tokens @ [tok]"

definition removeToken :: "'h CDeviceToken list \<Rightarrow> 'h \<Rightarrow> 'h CDeviceToken list" where
  "removeToken tokens h = filter (\<lambda>t. m_devHandle t \<noteq> h) tokens"

text \<open>
  The listener with the finder it references (\<open>m_finder\<close> is the finder's token set),
  and the blocks that \<open>CFRunLoopPerformBlock\<close> has queued on \<open>m_listenerRunLoop\<close>
  (each is a deferred \<open>deviceDisconnected\<close> of one device).
\<close>

record 'h CHIDListenerIOKit =
  m_finder :: "'h CDeviceToken list"
  m_scanningEnabled :: bool
  runLoopBlocks :: "'h list"

text \<open>
  What the OS reports for a device through \<open>IOHIDDeviceGetProperty\<close>: vendor id,
  product id, manufacturer and product strings.
\<close>

record hid_properties =
  prop_vendorId :: int
  prop_productId :: int
  prop_manufacturer :: string
  prop_product :: string

text \<open>\<open>static void deviceConnected(listener, IOReturn, void*, device)\<close>\<close>

definition deviceConnected ::
  "('h \<Rightarrow> hid_properties) \<Rightarrow> 'h CHIDListenerIOKit \<Rightarrow> 'h \<Rightarrow> 'h CHIDListenerIOKit" where
  "deviceConnected os listener device =
     (if \<not> m_scanningEnabled listener then listener
      else if hasToken (m_finder listener) device then listener
      else listener\<lparr>m_finder :=
             insertToken (m_finder listener)
               \<lparr>m_vendorId = prop_vendorId (os device),
                m_productId = prop_productId (os device),
                m_vendorName = prop_manufacturer (os device),
                m_productName = prop_product (os device),
                m_devHandle = device\<rparr>\<rparr>)"

text \<open>
  \<open>static void deviceDisconnected(listener, ret, sender, device)\<close>; \<open>onListenerLoop\<close>
  is \<open>CFRunLoopGetCurrent() == listener->m_listenerRunLoop\<close>.
\<close>

definition deviceDisconnected ::
  "bool \<Rightarrow> 'h CHIDListenerIOKit \<Rightarrow> 'h \<Rightarrow> 'h CHIDListenerIOKit" where
  "deviceDisconnected onListenerLoop listener device =
     (if \<not> onListenerLoop
      then listener\<lparr>runLoopBlocks := runLoopBlocks listener @ [device]\<rparr>
      else listener\<lparr>m_finder := removeToken (m_finder listener) device\<rparr>)"

definition startScanning :: "'h CHIDListenerIOKit \<Rightarrow> 'h CHIDListenerIOKit" where
  "startScanning listener = listener\<lparr>m_scanningEnabled := True\<rparr>"

definition stopScanning :: "'h CHIDListenerIOKit \<Rightarrow> 'h CHIDListenerIOKit" where
  "stopScanning listener = listener\<lparr>m_scanningEnabled := False\<rparr>"

text \<open>
  What can happen to a listener: the two OS callbacks (the removal callback on the
  listener's run loop or on another thread), the run loop running its oldest queued
  block, and the two scanning switches.
\<close>

datatype 'h hid_event =
    Connect 'h
  | Disconnect bool 'h
  | RunLoopBlock
  | StartScanning
  | StopScanning

fun hid_step ::
  "('h \<Rightarrow> hid_properties) \<Rightarrow> 'h hid_event \<Rightarrow> 'h CHIDListenerIOKit \<Rightarrow> 'h CHIDListenerIOKit" where
  "hid_step os (Connect h) l = deviceConnected os l h"
| "hid_step os (Disconnect onLoop h) l = deviceDisconnected onLoop l h"
| "hid_step os RunLoopBlock l =
     (case runLoopBlocks l of
        [] \<Rightarrow> l
      | h # rest \<Rightarrow> deviceDisconnected True (l\<lparr>runLoopBlocks := rest\<rparr>) h)"
| "hid_step os StartScanning l = startScanning l"
| "hid_step os StopScanning l = stopScanning l"

fun hid_run ::
  "('h \<Rightarrow> hid_properties) \<Rightarrow> 'h hid_event list \<Rightarrow> 'h CHIDListenerIOKit \<Rightarrow> 'h CHIDListenerIOKit" where
  "hid_run os [] l = l"
| "hid_run os (e # es) l = hid_run os es (hid_step os e l)"

text \<open>The tokens of the set that carry the handle \<open>h\<close>.\<close>

definition tokensFor :: "'h CHIDListenerIOKit \<Rightarrow> 'h \<Rightarrow> 'h CDeviceToken list" where
  "tokensFor l h = filter (\<lambda>t. m_devHandle t = h) (m_finder l)"

text \<open>The finder's set has at most one token for each handle.\<close>

definition uniqueHandles :: "'h CHIDListenerIOKit \<Rightarrow> bool" where
  "uniqueHandles l = distinct (map m_devHandle (m_finder l))"

section \<open>AudioQueue engine: MIDI endpoints (AQS.cpp)\<close>



text \<open>
  The members of \<open>AQSAudioVoiceEngine\<close> that its callback and its MIDI constructors
  use. The two counters are \<open>unsigned\<close>. \<open>mixInfo_sampleRate\<close> is the \<open>double\<close>
  \<open>m_mixInfo.m_sampleRate\<close>, a real number; no floating-point arithmetic is done on it.
\<close>

record AQSAudioVoiceEngine =
  m_midiClient :: nat
  m_midiInCounter :: "32 word"
  m_midiOutCounter :: "32 word"
  m_frameBytes :: nat
  mixInfo_periodFrames :: nat
  mixInfo_sampleRate :: real
  m_inRetrace :: bool
  m_inCb :: bool
  m_cbRunning :: bool

























definition engine_with_client :: AQSAudioVoiceEngine where
  "engine_with_client =
     \<lparr>m_midiClient = 1, m_midiInCounter = 0, m_midiOutCounter = 0, m_frameBytes = 8,
      mixInfo_periodFrames = 1, mixInfo_sampleRate = 48000,
      m_inRetrace = False, m_inCb = False, m_cbRunning = True\<rparr>"

section \<open>AudioQueue engine: the hardware callback (AQS.cpp)\<close>

text \<open>
  An \<open>AudioQueueBuffer\<close>: \<open>mAudioData\<close> is the allocated byte block (its length is the
  buffer's capacity) and \<open>mAudioDataByteSize\<close> is a \<open>UInt32\<close>.
\<close>

record AudioQueueBuffer =
  mAudioDataByteSize :: nat
  mAudioData :: "8 word list"

text \<open>
  What the callback does to the world outside the engine, in order: the timed wait on
  \<open>m_engineEnterCv\<close> (with the count of its \<open>std::chrono::nanoseconds\<close>, a signed
  64-bit number), handing a buffer back to the audio queue, waking the client through
  \<open>m_engineLeaveCv\<close>, and the call of \<open>_pumpAndMixVoices\<close> (with its frame count).
\<close>

datatype aqs_event =
    WaitFor int
  | AudioQueueEnqueueBuffer AudioQueueBuffer
  | NotifyLeave
  | PumpAndMixVoices nat

text \<open>
  What is decided outside the callback while it runs. The wait releases the engine
  mutex, so its result and the value of \<open>m_inRetrace\<close> read afterwards depend on the
  clock and on the client thread. \<open>_pumpAndMixVoices\<close> belongs to the base engine
  (AudioVoiceEngine.cpp, not among the sources); it is represented by the call event and
  by what it leaves in the buffer's data.
\<close>

record callback_env =
  wait_timed_out :: bool
  inRetrace_after_wait :: bool
  pump_writes :: "8 word list \<Rightarrow> 8 word list"

text \<open>Runs of the callback that C++ leaves undefined end in a fault.\<close>

datatype callback_fault = DoubleOutOfRange | DivideByZero | BufferOverrun

text \<open>
  \<open>size_t(d)\<close> for a \<open>double\<close>: truncation, defined when the truncated value fits
  (\<open>size_t\<close> has 64 bits).
\<close>

definition size_t_of_double :: "real \<Rightarrow> callback_fault + nat" where
  "size_t_of_double d =
     (if d \<le> - 1 \<or> 2 ^ 64 \<le> d then Inl DoubleOutOfRange else Inr (nat \<lfloor>d\<rfloor>))"

text \<open>A \<open>size_t\<close> read as the signed 64-bit count of a \<open>std::chrono::nanoseconds\<close>.\<close>

definition nanoseconds :: "nat \<Rightarrow> int" where
  "nanoseconds n = (if n < 2 ^ 63 then int n else int n - 2 ^ 64)"

text \<open>\<open>memset(p, 0, n)\<close> on a block: writing past its end is a fault.\<close>

definition memset_zero :: "8 word list \<Rightarrow> nat \<Rightarrow> callback_fault + 8 word list" where
  "memset_zero block n =
     (if length block < n then Inl BufferOverrun else Inr (replicate n 0 @ drop n block))"

text \<open>
  \<open>static void Callback(AQSAudioVoiceEngine* engine, AudioQueueRef inAQ,
  AudioQueueBufferRef inBuffer)\<close>. The result is the engine, the buffer and the events.
  The two tails of the function come first: the one inside the timed-out test, and the
  one that pumps.
\<close>

definition Callback_silence ::
  "AQSAudioVoiceEngine \<Rightarrow> AudioQueueBuffer \<Rightarrow> aqs_event list \<Rightarrow>
   callback_fault + (AQSAudioVoiceEngine \<times> AudioQueueBuffer \<times> aqs_event list)" where
  "Callback_silence e inBuffer evs =
     (let b1 = inBuffer\<lparr>mAudioDataByteSize := m_frameBytes e mod 2 ^ 32\<rparr>
      in case memset_zero (mAudioData b1) (m_frameBytes e) of
           Inl fault \<Rightarrow> Inl fault
         | Inr zeroed \<Rightarrow>
             let b2 = b1\<lparr>mAudioData := zeroed\<rparr>
             in Inr (e\<lparr>m_inCb := False\<rparr>, b2,
                     evs @ [AudioQueueEnqueueBuffer b2, NotifyLeave]))"

definition Callback_pump ::
  "callback_env \<Rightarrow> AQSAudioVoiceEngine \<Rightarrow> AudioQueueBuffer \<Rightarrow> aqs_event list \<Rightarrow>
   callback_fault + (AQSAudioVoiceEngine \<times> AudioQueueBuffer \<times> aqs_event list)" where
  "Callback_pump env e inBuffer evs =
     (let b1 = inBuffer\<lparr>mAudioData := pump_writes env (mAudioData inBuffer)\<rparr>;
          b2 = b1\<lparr>mAudioDataByteSize := m_frameBytes e mod 2 ^ 32\<rparr>
      in Inr (e\<lparr>m_inCb := False\<rparr>, b2,
              evs @ [PumpAndMixVoices (mixInfo_periodFrames e),
                     AudioQueueEnqueueBuffer b2, NotifyLeave]))"

definition Callback ::
  "callback_env \<Rightarrow> AQSAudioVoiceEngine \<Rightarrow> AudioQueueBuffer \<Rightarrow>
   callback_fault + (AQSAudioVoiceEngine \<times> AudioQueueBuffer \<times> aqs_event list)" where
  "Callback env engine inBuffer =
     (if \<not> m_cbRunning engine then Inr (engine, inBuffer, [])
      else
        let e1 = engine\<lparr>m_inCb := True\<rparr>
        in if \<not> m_inRetrace e1
           then
             (case size_t_of_double (mixInfo_sampleRate e1) of
                Inl fault \<Rightarrow> Inl fault
              | Inr rate \<Rightarrow>
                  if rate = 0 then Inl DivideByZero
                  else
                    let ns = ((mixInfo_periodFrames e1 * 1000000000) mod 2 ^ 64) div rate;
                        evs = [WaitFor (nanoseconds ns)];
                        e2 = e1\<lparr>m_inRetrace := inRetrace_after_wait env\<rparr>
                    in if wait_timed_out env \<or> \<not> m_inRetrace e2
                       then Callback_silence e2 inBuffer evs
                       else Callback_pump env e2 inBuffer evs)
           else Callback_pump env e1 inBuffer [])"

text \<open>The events of a run that pump voices.\<close>

definition pumps :: "aqs_event list \<Rightarrow> aqs_event list" where
  "pumps evs = filter (\<lambda>ev. case ev of PumpAndMixVoices n \<Rightarrow> True | _ \<Rightarrow> False) evs"

section \<open>Audio voices (AudioVoice.cpp)\<close>

subsection \<open>The resampler, the client and the engine as the voice sees them\<close>

text \<open>
  A \<open>double\<close> is a value of the type variable \<open>'d\<close> and a \<open>float\<close> sample one of
  \<open>'f\<close>: no floating-point arithmetic is evaluated. Where the code computes
  \<open>ratio * m_sampleRateIn / m_sampleRateOut\<close> or \<open>frames / m_sampleRateOut\<close>, the
  model keeps the operands.

  The resampler behind \<open>m_src\<close> is libsoxr, an external library. The model identifies
  \<open>m_src\<close> with the sequence of library calls the voice has made, with their arguments.
\<close>

datatype soxr_datatype = SOXR_FLOAT32_I | SOXR_FLOAT64_I | SOXR_INT32_I | SOXR_INT16_I

datatype 'd soxr_call =
    Soxr_delete
  | Soxr_create 'd 'd nat soxr_datatype bool
  | Soxr_set_input_fn
  | Soxr_set_io_ratio 'd 'd 'd nat
  | Soxr_output nat

text \<open>
  \<open>Soxr_create rateIn rateOut channels formatOut vr\<close> is
  \<open>soxr_create(rateIn, rateOut, channels, ...)\<close> with the output format of the io spec
  and whether the quality spec carries \<open>SOXR_VR\<close>;
  \<open>Soxr_set_io_ratio ratio rateIn rateOut slew_len\<close> is \<open>soxr_set_io_ratio\<close> with the
  three operands of its ratio; \<open>Soxr_output frames\<close> is \<open>soxr_output\<close>.

  What the library answers during one pump: whether \<open>soxr_create\<close> fails (it then
  returns null and sets \<open>err\<close>, so the tests \<open>if (err)\<close> of the mono voice and
  \<open>if (!m_src)\<close> of the stereo voice agree), whether \<open>soxr_set_io_ratio\<close> reports an
  error, the frame counts with which \<open>soxr_output\<close> calls its input function, the
  number of frames it reports done (never more than asked for) and the samples it
  writes, by index, in each output format.
\<close>

record 'f soxr_env =
  create_fails :: bool
  set_io_ratio_fails :: bool
  input_requests :: "nat list"
  output_done :: nat
  out16 :: "nat \<Rightarrow> 16 word"
  out32 :: "nat \<Rightarrow> 32 word"
  outFlt :: "nat \<Rightarrow> 'f"

text \<open>
  The calls the engine has made to the client's \<open>IAudioVoiceCallback\<close>, in order:
  \<open>preSupplyAudio\<close> (with the operands of \<open>dt\<close>), \<open>supplyAudio\<close> (with its frame
  count) and \<open>routeAudio\<close> (frames, channels, bus id).
\<close>

datatype 'd cb_event =
    Ev_preSupplyAudio nat 'd
  | Ev_supplyAudio nat
  | Ev_routeAudio nat nat int

text \<open>
  What a client may ask of the voice it is handed in \<open>preSupplyAudio\<close>
  (\<open>*this\<close>): the methods of AudioVoice.cpp that change what a pump reads, which are
  the two deferred-parameter methods and the three channel-level methods. A submix
  argument is a pointer (\<open>None\<close> is \<open>nullptr\<close>); \<open>coefs[8]\<close> is a list of eight
  floats and \<open>coefs[8][2]\<close> a list of eight pairs. (\<open>start\<close> and \<open>stop\<close> write
  \<open>m_running\<close> only, which no method of this file reads; \<open>unbindVoice\<close> edits the
  engine's voice list, which is not part of a voice's pump.)
\<close>

datatype ('d, 'f) voice_request =
    Req_setPitchRatio 'd bool
  | Req_resetSampleRate 'd
  | Req_resetChannelLevels
  | Req_setMonoChannelLevels "nat option" "'f list" bool
  | Req_setStereoChannelLevels "nat option" "('f \<times> 'f) list" bool

text \<open>
  The client. Each method sees the calls made so far (a client has state) and its
  arguments. \<open>preSupplyAudio\<close> answers with the requests it makes on the voice;
  \<open>supplyAudio\<close> with the samples it writes to the scratch buffer and the frame count
  it returns; the three overloads of \<open>routeAudio\<close> (frames, channels, the operands of
  \<open>dt\<close>, bus id, input block) with the samples they write to the output block.
  \<open>supplyAudio\<close> is handed the voice as well; it is taken to fill the buffer and to
  make no request on the voice, \<open>preSupplyAudio\<close> being the call in which a client
  makes them.
\<close>

record ('d, 'f) IAudioVoiceCallback =
  preSupplyAudio :: "'d cb_event list \<Rightarrow> nat \<times> 'd \<Rightarrow> ('d, 'f) voice_request list"
  supplyAudio :: "'d cb_event list \<Rightarrow> nat \<Rightarrow> 16 word list \<times> nat"
  routeAudio16 :: "'d cb_event list \<Rightarrow> nat \<Rightarrow> nat \<Rightarrow> nat \<times> 'd \<Rightarrow> int \<Rightarrow> 16 word list \<Rightarrow> 16 word list"
  routeAudio32 :: "'d cb_event list \<Rightarrow> nat \<Rightarrow> nat \<Rightarrow> nat \<times> 'd \<Rightarrow> int \<Rightarrow> 32 word list \<Rightarrow> 32 word list"
  routeAudioFlt :: "'d cb_event list \<Rightarrow> nat \<Rightarrow> nat \<Rightarrow> nat \<times> 'd \<Rightarrow> int \<Rightarrow> 'f list \<Rightarrow> 'f list"

text \<open>
  One call of \<open>mixMonoSampleData\<close> or \<open>mixStereoSampleData\<close> on a submix's merge
  buffer: the matrix used, whether it was the stereo mix, the block mixed in and its
  frame count. The matrix classes and \<open>AudioSubmix\<close> are not among the sources; a
  matrix is a value of the type variable \<open>'m\<close>, a submix is named by its address, and a
  merge buffer is the list of what has been mixed into it. The advance of a matrix's
  slew state inside the mix call is not represented.
\<close>

record ('m, 's) mix_entry =
  mix_matrix :: "'m"
  mix_stereo :: bool
  mix_data :: "'s list"
  mix_frames :: nat

text \<open>
  Everything outside the voice that its methods read or write: the members of
  \<open>BaseAudioVoiceEngine\<close> reached through \<open>m_root\<close> (the seven scratch vectors,
  \<open>m_5msFrames\<close>, the sample rate and format of \<open>m_mixInfo\<close>, the main submix), the
  bus id and the three merge buffers of each submix, the two file-level default matrices,
  the calls made to the client, and the messages passed to \<open>Log.report\<close>, which is
  taken to return to its caller as the statements after each report suppose. Then
  \<open>m_submixesDirty\<close> of the engine, and what the channel-level methods use of the
  matrix classes: a default-constructed matrix of each class (\<open>AudioMatrixMono{}\<close>,
  \<open>AudioMatrixStereo{}\<close>) and \<open>setMatrixCoefficients\<close> of each class, from a matrix,
  the coefficients and the slew frame count to the matrix afterwards. The matrix classes
  are not among the sources, so these four are parameters of which nothing is assumed.
\<close>

record ('d, 'f, 'm) audio_world =
  m_scratchIn :: "16 word list"
  m_scratch16Pre :: "16 word list"
  m_scratch16Post :: "16 word list"
  m_scratch32Pre :: "32 word list"
  m_scratch32Post :: "32 word list"
  m_scratchFltPre :: "'f list"
  m_scratchFltPost :: "'f list"
  m_5msFrames :: nat
  m_mixInfo_sampleRate :: "'d"
  m_mixInfo_sampleFormat :: soxr_datatype
  m_mainSubmix :: nat
  m_busId :: "nat \<Rightarrow> int"
  mergeBuf16 :: "nat \<Rightarrow> ('m, 16 word) mix_entry list"
  mergeBuf32 :: "nat \<Rightarrow> ('m, 32 word) mix_entry list"
  mergeBufFlt :: "nat \<Rightarrow> ('m, 'f) mix_entry list"
  DefaultMonoMtx :: "'m"
  DefaultStereoMtx :: "'m"
  cb_history :: "'d cb_event list"
  log_reports :: "string list"
  m_submixesDirty :: bool
  AudioMatrixMono_default :: "'m"
  AudioMatrixStereo_default :: "'m"
  setMatrixCoefficientsMono :: "'m \<Rightarrow> 'f list \<Rightarrow> nat \<Rightarrow> 'm"
  setMatrixCoefficientsStereo :: "'m \<Rightarrow> ('f \<times> 'f) list \<Rightarrow> nat \<Rightarrow> 'm"

text \<open>
  The voice. \<open>voice_class\<close> is its dynamic class, \<open>AudioVoiceMono\<close> or
  \<open>AudioVoiceStereo\<close>, which selects the virtual methods. \<open>m_sendMatrices\<close> is the
  map from submix to matrix, in its iteration order.
\<close>

datatype voice_class = Mono | Stereo

fun channels :: "voice_class \<Rightarrow> nat" where
  "channels Mono = 1"
| "channels Stereo = 2"

record ('d, 'm) AudioVoice =
  voice_class :: voice_class
  m_dynamicRate :: bool
  m_src :: "'d soxr_call list"
  m_sampleRateIn :: "'d"
  m_sampleRateOut :: "'d"
  m_resetSampleRate :: bool
  m_deferredSampleRate :: "'d"
  m_setPitchRatio :: bool
  m_pitchRatio :: "'d"
  m_slew :: bool
  m_silentOut :: bool
  m_sendMatrices :: "(nat \<times> 'm) list"

subsection \<open>Sizes and vectors\<close>

text \<open>
  \<open>size_t\<close> has 64 bits; its products and sums wrap. \<open>std::vector::resize\<close> keeps
  the old elements and value-initialises new ones (allocation failure is not modelled).
  \<open>memset(p, 0, bytes)\<close> on \<open>int16_t\<close> data zeroes \<open>bytes / 2\<close> elements; every
  byte count passed below is even. \<open>poke\<close> is a write of a block at the start of a
  vector; the part of a block that would pass the vector's end is dropped.
\<close>

definition size_t_mul :: "nat \<Rightarrow> nat \<Rightarrow> nat" where
  "size_t_mul a b = (a * b) mod 2 ^ 64"

definition size_t_add :: "nat \<Rightarrow> nat \<Rightarrow> nat" where
  "size_t_add a b = (a + b) mod 2 ^ 64"

definition resize :: "'a::zero list \<Rightarrow> nat \<Rightarrow> 'a list" where
  "resize xs n = take n xs @ replicate (n - length xs) 0"

definition memset16_zero :: "16 word list \<Rightarrow> nat \<Rightarrow> 16 word list" where
  "memset16_zero xs bytes = replicate (min (bytes div 2) (length xs)) 0 @ drop (bytes div 2) xs"

definition poke :: "'a list \<Rightarrow> 'a list \<Rightarrow> 'a list" where
  "poke buf block = take (length buf) block @ drop (length block) buf"

subsection \<open>Deferred parameters\<close>

text \<open>\<open>void AudioVoice::setPitchRatio(double ratio, bool slew)\<close>\<close>

definition setPitchRatio :: "('d, 'm) AudioVoice \<Rightarrow> 'd \<Rightarrow> bool \<Rightarrow> ('d, 'm) AudioVoice" where
  "setPitchRatio v ratio slew = v\<lparr>m_setPitchRatio := True, m_pitchRatio := ratio, m_slew := slew\<rparr>"

text \<open>\<open>void AudioVoice::resetSampleRate(double sampleRate)\<close>\<close>

definition resetSampleRate :: "('d, 'm) AudioVoice \<Rightarrow> 'd \<Rightarrow> ('d, 'm) AudioVoice" where
  "resetSampleRate v sampleRate = v\<lparr>m_resetSampleRate := True, m_deferredSampleRate := sampleRate\<rparr>"

text \<open>
  \<open>void AudioVoice::_setPitchRatio(double ratio, bool slew)\<close>. (A leading underscore
  cannot start a name here: \<open>_setPitchRatio\<close>, \<open>_resetSampleRate\<close> and \<open>_midUpdate\<close>
  are \<open>internal_setPitchRatio\<close>, \<open>internal_resetSampleRate\<close> and \<open>midUpdate\<close>.)
\<close>

definition internal_setPitchRatio ::
  "'f soxr_env \<Rightarrow> ('d, 'm) AudioVoice \<times> ('d, 'f, 'm) audio_world \<Rightarrow> 'd \<Rightarrow> bool \<Rightarrow>
   ('d, 'm) AudioVoice \<times> ('d, 'f, 'm) audio_world" where
  "internal_setPitchRatio env vw ratio slew =
     (case vw of (v, w) \<Rightarrow>
        if m_dynamicRate v
        then
          let v1 = v\<lparr>m_src := m_src v @
                     [Soxr_set_io_ratio ratio (m_sampleRateIn v) (m_sampleRateOut v)
                        (if slew then m_5msFrames w else 0)]\<rparr>
          in if set_io_ratio_fails env
             then (v1\<lparr>m_setPitchRatio := False\<rparr>,
                   w\<lparr>log_reports := log_reports w @ [''unable to set resampler rate: %s'']\<rparr>)
             else (v1\<lparr>m_setPitchRatio := False\<rparr>, w)
        else (v\<lparr>m_setPitchRatio := False\<rparr>, w))"

text \<open>
  \<open>void AudioVoiceMono::_resetSampleRate(double sampleRate)\<close> and
  \<open>void AudioVoiceStereo::_resetSampleRate(double sampleRate)\<close>: the same text but for
  the channel count given to \<open>soxr_create\<close>.
\<close>

definition internal_resetSampleRate ::
  "nat \<Rightarrow> 'f soxr_env \<Rightarrow> ('d, 'm) AudioVoice \<times> ('d, 'f, 'm) audio_world \<Rightarrow> 'd \<Rightarrow>
   ('d, 'm) AudioVoice \<times> ('d, 'f, 'm) audio_world" where
  "internal_resetSampleRate nchan env vw sampleRate =
     (case vw of (v, w) \<Rightarrow>
        let rateOut = m_mixInfo_sampleRate w;
            formatOut = m_mixInfo_sampleFormat w;
            v1 = v\<lparr>m_src := m_src v @
                   [Soxr_delete, Soxr_create sampleRate rateOut nchan formatOut (m_dynamicRate v)]\<rparr>
        in if create_fails env
           then (v1\<lparr>m_resetSampleRate := False\<rparr>,
                 w\<lparr>log_reports := log_reports w @ [''unable to create soxr resampler: %s'']\<rparr>)
           else
             let v2 = v1\<lparr>m_sampleRateIn := sampleRate, m_sampleRateOut := rateOut,
                         m_src := m_src v1 @ [Soxr_set_input_fn]\<rparr>;
                 (v3, w3) = internal_setPitchRatio env (v2, w) (m_pitchRatio v2) False
             in (v3\<lparr>m_resetSampleRate := False\<rparr>, w3))"

definition AudioVoiceMono_resetSampleRate ::
  "'f soxr_env \<Rightarrow> ('d, 'm) AudioVoice \<times> ('d, 'f, 'm) audio_world \<Rightarrow> 'd \<Rightarrow>
   ('d, 'm) AudioVoice \<times> ('d, 'f, 'm) audio_world" where
  "AudioVoiceMono_resetSampleRate = internal_resetSampleRate 1"

definition AudioVoiceStereo_resetSampleRate ::
  "'f soxr_env \<Rightarrow> ('d, 'm) AudioVoice \<times> ('d, 'f, 'm) audio_world \<Rightarrow> 'd \<Rightarrow>
   ('d, 'm) AudioVoice \<times> ('d, 'f, 'm) audio_world" where
  "AudioVoiceStereo_resetSampleRate = internal_resetSampleRate 2"

text \<open>\<open>void AudioVoice::_midUpdate()\<close>; \<open>_resetSampleRate\<close> is virtual.\<close>

definition midUpdate ::
  "'f soxr_env \<Rightarrow> ('d, 'm) AudioVoice \<times> ('d, 'f, 'm) audio_world \<Rightarrow>
   ('d, 'm) AudioVoice \<times> ('d, 'f, 'm) audio_world" where
  "midUpdate env vw =
     (let (v1, w1) =
            (if m_resetSampleRate (fst vw)
             then (case voice_class (fst vw) of
                     Mono \<Rightarrow> AudioVoiceMono_resetSampleRate env vw (m_deferredSampleRate (fst vw))
                   | Stereo \<Rightarrow> AudioVoiceStereo_resetSampleRate env vw (m_deferredSampleRate (fst vw)))
             else vw)
      in if m_setPitchRatio v1
         then internal_setPitchRatio env (v1, w1) (m_pitchRatio v1) (m_slew v1)
         else (v1, w1))"

subsection \<open>Channel levels\<close>

text \<open>
  \<open>void AudioVoiceMono::resetChannelLevels()\<close> and
  \<open>void AudioVoiceStereo::resetChannelLevels()\<close>, which have the same text.
\<close>

definition resetChannelLevels ::
  "('d, 'm) AudioVoice \<times> ('d, 'f, 'm) audio_world \<Rightarrow> ('d, 'm) AudioVoice \<times> ('d, 'f, 'm) audio_world" where
  "resetChannelLevels vw =
     (case vw of (v, w) \<Rightarrow> (v\<lparr>m_sendMatrices := []\<rparr>, w\<lparr>m_submixesDirty := True\<rparr>))"

text \<open>
  The last three statements of the four \<open>set...ChannelLevels\<close> methods:
  \<open>m_sendMatrices.find(submix)\<close>, \<open>emplace\<close> of a default-constructed matrix when
  the submix has no entry, and \<open>setMatrixCoefficients\<close> on the entry; \<open>fresh\<close> is
  the default-constructed matrix and \<open>upd\<close> the coefficient update. The map's
  declaration is in a header that is not among the sources: its entries are a list with
  one entry for a submix, a new entry last. The order matters to nothing proved below.
\<close>

fun set_send :: "nat \<Rightarrow> 'm \<Rightarrow> ('m \<Rightarrow> 'm) \<Rightarrow> (nat \<times> 'm) list \<Rightarrow> (nat \<times> 'm) list" where
  "set_send submix fresh upd [] = [(submix, upd fresh)]"
| "set_send submix fresh upd ((k, m) # rest) =
     (if k = submix then (k, upd m) # rest else (k, m) # set_send submix fresh upd rest)"

text \<open>
  \<open>void AudioVoiceMono::setMonoChannelLevels(IAudioSubmix* submix, const float coefs[8],
  bool slew)\<close>
\<close>

definition AudioVoiceMono_setMonoChannelLevels ::
  "('d, 'm) AudioVoice \<times> ('d, 'f, 'm) audio_world \<Rightarrow> nat option \<Rightarrow> 'f list \<Rightarrow> bool \<Rightarrow>
   ('d, 'm) AudioVoice \<times> ('d, 'f, 'm) audio_world" where
  "AudioVoiceMono_setMonoChannelLevels vw submix coefs slew =
     (case vw of (v, w) \<Rightarrow>
        let submix1 = (case submix of None \<Rightarrow> m_mainSubmix w | Some s \<Rightarrow> s)
        in (v\<lparr>m_sendMatrices :=
               set_send submix1 (AudioMatrixMono_default w)
                 (\<lambda>m. setMatrixCoefficientsMono w m coefs (if slew then m_5msFrames w else 0))
                 (m_sendMatrices v)\<rparr>, w))"

text \<open>
  \<open>void AudioVoiceMono::setStereoChannelLevels(IAudioSubmix* submix,
  const float coefs[8][2], bool slew)\<close>: \<open>newCoefs\<close> holds \<open>coefs[i][0]\<close>.
\<close>

definition AudioVoiceMono_setStereoChannelLevels ::
  "('d, 'm) AudioVoice \<times> ('d, 'f, 'm) audio_world \<Rightarrow> nat option \<Rightarrow> ('f \<times> 'f) list \<Rightarrow> bool \<Rightarrow>
   ('d, 'm) AudioVoice \<times> ('d, 'f, 'm) audio_world" where
  "AudioVoiceMono_setStereoChannelLevels vw submix coefs slew =
     (case vw of (v, w) \<Rightarrow>
        let newCoefs = map fst coefs;
            submix1 = (case submix of None \<Rightarrow> m_mainSubmix w | Some s \<Rightarrow> s)
        in (v\<lparr>m_sendMatrices :=
               set_send submix1 (AudioMatrixMono_default w)
                 (\<lambda>m. setMatrixCoefficientsMono w m newCoefs (if slew then m_5msFrames w else 0))
                 (m_sendMatrices v)\<rparr>, w))"

text \<open>
  \<open>void AudioVoiceStereo::setMonoChannelLevels(IAudioSubmix* submix, const float coefs[8],
  bool slew)\<close>: \<open>newCoefs\<close> holds \<open>{coefs[i], coefs[i]}\<close>.
\<close>

definition AudioVoiceStereo_setMonoChannelLevels ::
  "('d, 'm) AudioVoice \<times> ('d, 'f, 'm) audio_world \<Rightarrow> nat option \<Rightarrow> 'f list \<Rightarrow> bool \<Rightarrow>
   ('d, 'm) AudioVoice \<times> ('d, 'f, 'm) audio_world" where
  "AudioVoiceStereo_setMonoChannelLevels vw submix coefs slew =
     (case vw of (v, w) \<Rightarrow>
        let newCoefs = map (\<lambda>c. (c, c)) coefs;
            submix1 = (case submix of None \<Rightarrow> m_mainSubmix w | Some s \<Rightarrow> s)
        in (v\<lparr>m_sendMatrices :=
               set_send submix1 (AudioMatrixStereo_default w)
                 (\<lambda>m. setMatrixCoefficientsStereo w m newCoefs (if slew then m_5msFrames w else 0))
                 (m_sendMatrices v)\<rparr>, w))"

text \<open>
  \<open>void AudioVoiceStereo::setStereoChannelLevels(IAudioSubmix* submix,
  const float coefs[8][2], bool slew)\<close>
\<close>

definition AudioVoiceStereo_setStereoChannelLevels ::
  "('d, 'm) AudioVoice \<times> ('d, 'f, 'm) audio_world \<Rightarrow> nat option \<Rightarrow> ('f \<times> 'f) list \<Rightarrow> bool \<Rightarrow>
   ('d, 'm) AudioVoice \<times> ('d, 'f, 'm) audio_world" where
  "AudioVoiceStereo_setStereoChannelLevels vw submix coefs slew =
     (case vw of (v, w) \<Rightarrow>
        let submix1 = (case submix of None \<Rightarrow> m_mainSubmix w | Some s \<Rightarrow> s)
        in (v\<lparr>m_sendMatrices :=
               set_send submix1 (AudioMatrixStereo_default w)
                 (\<lambda>m. setMatrixCoefficientsStereo w m coefs (if slew then m_5msFrames w else 0))
                 (m_sendMatrices v)\<rparr>, w))"

subsection \<open>The resampler's input callback\<close>

text \<open>
  \<open>size_t AudioVoiceMono::SRCCallback(AudioVoiceMono* ctx, int16_t** data, size_t frames)\<close>:
  the result is the returned frame count and the world afterwards.
\<close>

definition AudioVoiceMono_SRCCallback ::
  "('d, 'f) IAudioVoiceCallback \<Rightarrow> ('d, 'm) AudioVoice \<Rightarrow> ('d, 'f, 'm) audio_world \<Rightarrow> nat \<Rightarrow>
   nat \<times> ('d, 'f, 'm) audio_world" where
  "AudioVoiceMono_SRCCallback cb ctx w frames =
     (let scratchIn = (if length (m_scratchIn w) < frames
                       then resize (m_scratchIn w) frames else m_scratchIn w)
      in if m_silentOut ctx
         then (frames, w\<lparr>m_scratchIn := memset16_zero scratchIn (size_t_mul frames 2)\<rparr>)
         else
           let (block, ret) = supplyAudio cb (cb_history w) frames
           in (ret, w\<lparr>m_scratchIn := poke scratchIn block,
                      cb_history := cb_history w @ [Ev_supplyAudio frames]\<rparr>))"

text \<open>\<open>size_t AudioVoiceStereo::SRCCallback(AudioVoiceStereo* ctx, int16_t** data, size_t frames)\<close>\<close>

definition AudioVoiceStereo_SRCCallback ::
  "('d, 'f) IAudioVoiceCallback \<Rightarrow> ('d, 'm) AudioVoice \<Rightarrow> ('d, 'f, 'm) audio_world \<Rightarrow> nat \<Rightarrow>
   nat \<times> ('d, 'f, 'm) audio_world" where
  "AudioVoiceStereo_SRCCallback cb ctx w frames =
     (let samples = size_t_mul frames 2;
          scratchIn = (if length (m_scratchIn w) < samples
                       then resize (m_scratchIn w) samples else m_scratchIn w)
      in if m_silentOut ctx
         then (frames, w\<lparr>m_scratchIn := memset16_zero scratchIn (size_t_mul samples 2)\<rparr>)
         else
           let (block, ret) = supplyAudio cb (cb_history w) frames
           in (ret, w\<lparr>m_scratchIn := poke scratchIn block,
                      cb_history := cb_history w @ [Ev_supplyAudio frames]\<rparr>))"

text \<open>The callback a voice registers with \<open>soxr_set_input_fn\<close> is its own class's.\<close>

definition SRCCallback ::
  "('d, 'f) IAudioVoiceCallback \<Rightarrow> ('d, 'm) AudioVoice \<Rightarrow> ('d, 'f, 'm) audio_world \<Rightarrow> nat \<Rightarrow>
   nat \<times> ('d, 'f, 'm) audio_world" where
  "SRCCallback cb ctx w frames =
     (case voice_class ctx of
        Mono \<Rightarrow> AudioVoiceMono_SRCCallback cb ctx w frames
      | Stereo \<Rightarrow> AudioVoiceStereo_SRCCallback cb ctx w frames)"

text \<open>
  \<open>soxr_output(m_src, buffer, frames)\<close>: the library calls the input function once for
  each of its requests and reports the frames done, at most \<open>frames\<close>. The samples it
  writes are put into the format's scratch vector by the caller below.
\<close>

fun SRC_callbacks ::
  "('d, 'f) IAudioVoiceCallback \<Rightarrow> ('d, 'm) AudioVoice \<Rightarrow> nat list \<Rightarrow> ('d, 'f, 'm) audio_world \<Rightarrow>
   ('d, 'f, 'm) audio_world" where
  "SRC_callbacks cb v [] w = w"
| "SRC_callbacks cb v (r # rs) w = SRC_callbacks cb v rs (snd (SRCCallback cb v w r))"

definition soxr_output ::
  "'f soxr_env \<Rightarrow> ('d, 'f) IAudioVoiceCallback \<Rightarrow> nat \<Rightarrow>
   ('d, 'm) AudioVoice \<times> ('d, 'f, 'm) audio_world \<Rightarrow>
   nat \<times> ('d, 'm) AudioVoice \<times> ('d, 'f, 'm) audio_world" where
  "soxr_output env cb frames vw =
     (case vw of (v, w) \<Rightarrow>
        (min frames (output_done env),
         v\<lparr>m_src := m_src v @ [Soxr_output frames]\<rparr>,
         SRC_callbacks cb v (input_requests env) w))"

subsection \<open>Pump and mix\<close>

text \<open>
  \<open>m_cb->preSupplyAudio(*this, dt)\<close>: the client is called and the requests it makes
  on the voice run in order, each the method of the voice's own class.
\<close>

fun apply_request ::
  "('d, 'f) voice_request \<Rightarrow> ('d, 'm) AudioVoice \<times> ('d, 'f, 'm) audio_world \<Rightarrow>
   ('d, 'm) AudioVoice \<times> ('d, 'f, 'm) audio_world" where
  "apply_request (Req_setPitchRatio ratio slew) (v, w) = (setPitchRatio v ratio slew, w)"
| "apply_request (Req_resetSampleRate rate) (v, w) = (resetSampleRate v rate, w)"
| "apply_request Req_resetChannelLevels (v, w) = resetChannelLevels (v, w)"
| "apply_request (Req_setMonoChannelLevels submix coefs slew) (v, w) =
     (case voice_class v of
        Mono \<Rightarrow> AudioVoiceMono_setMonoChannelLevels (v, w) submix coefs slew
      | Stereo \<Rightarrow> AudioVoiceStereo_setMonoChannelLevels (v, w) submix coefs slew)"
| "apply_request (Req_setStereoChannelLevels submix coefs slew) (v, w) =
     (case voice_class v of
        Mono \<Rightarrow> AudioVoiceMono_setStereoChannelLevels (v, w) submix coefs slew
      | Stereo \<Rightarrow> AudioVoiceStereo_setStereoChannelLevels (v, w) submix coefs slew)"

fun apply_requests ::
  "('d, 'f) voice_request list \<Rightarrow> ('d, 'm) AudioVoice \<times> ('d, 'f, 'm) audio_world \<Rightarrow>
   ('d, 'm) AudioVoice \<times> ('d, 'f, 'm) audio_world" where
  "apply_requests [] vw = vw"
| "apply_requests (r # rs) vw = apply_requests rs (apply_request r vw)"

definition call_preSupplyAudio ::
  "('d, 'f) IAudioVoiceCallback \<Rightarrow> nat \<times> 'd \<Rightarrow> ('d, 'm) AudioVoice \<times> ('d, 'f, 'm) audio_world \<Rightarrow>
   ('d, 'm) AudioVoice \<times> ('d, 'f, 'm) audio_world" where
  "call_preSupplyAudio cb dt vw =
     (case vw of (v, w) \<Rightarrow>
        apply_requests (preSupplyAudio cb (cb_history w) dt)
          (v, w\<lparr>cb_history := cb_history w @ [Ev_preSupplyAudio (fst dt) (snd dt)]\<rparr>))"

text \<open>
  The loop over \<open>m_sendMatrices\<close> (and the single default send): for each submix,
  \<open>routeAudio\<close> writes the post block from the pre block and the post block is mixed
  into the submix's merge buffer. It carries the post vector, the merge buffers and the
  client's call history.
\<close>

fun route_and_mix ::
  "('d cb_event list \<Rightarrow> nat \<Rightarrow> nat \<Rightarrow> nat \<times> 'd \<Rightarrow> int \<Rightarrow> 's list \<Rightarrow> 's list) \<Rightarrow>
   voice_class \<Rightarrow> nat \<times> 'd \<Rightarrow> nat \<Rightarrow> (nat \<Rightarrow> int) \<Rightarrow> 's list \<Rightarrow> (nat \<times> 'm) list \<Rightarrow>
   's list \<times> (nat \<Rightarrow> ('m, 's) mix_entry list) \<times> 'd cb_event list \<Rightarrow>
   's list \<times> (nat \<Rightarrow> ('m, 's) mix_entry list) \<times> 'd cb_event list" where
  "route_and_mix route cls dt oDone busId pre [] acc = acc"
| "route_and_mix route cls dt oDone busId pre ((smx, mtx) # rest) (post, merge, hist) =
     (let post1 = poke post (route hist oDone (channels cls) dt (busId smx) pre);
          entry = \<lparr>mix_matrix = mtx, mix_stereo = (cls = Stereo),
                   mix_data = take (oDone * channels cls) post1, mix_frames = oDone\<rparr>
      in route_and_mix route cls dt oDone busId pre rest
           (post1, merge(smx := merge smx @ [entry]),
            hist @ [Ev_routeAudio oDone (channels cls) (busId smx)]))"

text \<open>
  \<open>size_t samples = frames * 2\<close> of the stereo voice; the mono voice uses \<open>frames\<close>.
\<close>

fun sample_count :: "voice_class \<Rightarrow> nat \<Rightarrow> nat" where
  "sample_count Mono frames = frames"
| "sample_count Stereo frames = size_t_mul frames 2"

fun default_matrix :: "voice_class \<Rightarrow> ('d, 'f, 'm) audio_world \<Rightarrow> 'm" where
  "default_matrix Mono w = DefaultMonoMtx w"
| "default_matrix Stereo w = DefaultStereoMtx w"

text \<open>
  \<open>size_t AudioVoiceMono::pumpAndMix16(size_t frames)\<close> and
  \<open>size_t AudioVoiceStereo::pumpAndMix16(size_t frames)\<close>. The two differ in the sample
  count, the channel count passed to \<open>routeAudio\<close>, the default matrix and the mix call;
  \<open>cls\<close> is the class whose method it is. The result is \<open>oDone\<close>, the voice and the
  world; the block under \<open>if (oDone)\<close> touches the world only. The loop over
  \<open>m_sendMatrices\<close> and the \<open>else\<close> branch with the default matrix into the main
  submix are one loop over the sends, which are the map's entries or that single send.
\<close>

definition pumpAndMix16_of ::
  "voice_class \<Rightarrow> ('d, 'f) IAudioVoiceCallback \<Rightarrow> 'f soxr_env \<Rightarrow> nat \<Rightarrow>
   ('d, 'm) AudioVoice \<times> ('d, 'f, 'm) audio_world \<Rightarrow>
   nat \<times> ('d, 'm) AudioVoice \<times> ('d, 'f, 'm) audio_world" where
  "pumpAndMix16_of cls cb env frames vw =
     (case vw of (v, w) \<Rightarrow>
        let samples = sample_count cls frames;
            w1 = w\<lparr>m_scratch16Pre := (if length (m_scratch16Pre w) < samples
                                       then resize (m_scratch16Pre w) samples else m_scratch16Pre w)\<rparr>;
            w2 = w1\<lparr>m_scratch16Post := (if length (m_scratch16Post w1) < samples
                                         then resize (m_scratch16Post w1) samples else m_scratch16Post w1)\<rparr>;
            dt = (frames, m_sampleRateOut v);
            (v3, w3) = call_preSupplyAudio cb dt (v, w2);
            (v4, w4) = midUpdate env (v3, w3);
            (oDone, v5, w5) = soxr_output env cb frames (v4, w4);
            w6 = w5\<lparr>m_scratch16Pre :=
                      poke (m_scratch16Pre w5) (map (out16 env) [0..<oDone * channels cls])\<rparr>
        in (oDone, v5,
            if oDone \<noteq> 0
            then
              let sends = (if m_sendMatrices v5 \<noteq> [] then m_sendMatrices v5
                           else [(m_mainSubmix w6, default_matrix cls w6)]);
                  (post, merge, hist) =
                     route_and_mix (routeAudio16 cb) cls dt oDone (m_busId w6) (m_scratch16Pre w6) sends
                       (m_scratch16Post w6, mergeBuf16 w6, cb_history w6)
              in w6\<lparr>m_scratch16Post := post, mergeBuf16 := merge, cb_history := hist\<rparr>
            else w6))"

text \<open>\<open>pumpAndMix32\<close> of the two classes.\<close>

definition pumpAndMix32_of ::
  "voice_class \<Rightarrow> ('d, 'f) IAudioVoiceCallback \<Rightarrow> 'f soxr_env \<Rightarrow> nat \<Rightarrow>
   ('d, 'm) AudioVoice \<times> ('d, 'f, 'm) audio_world \<Rightarrow>
   nat \<times> ('d, 'm) AudioVoice \<times> ('d, 'f, 'm) audio_world" where
  "pumpAndMix32_of cls cb env frames vw =
     (case vw of (v, w) \<Rightarrow>
        let samples = sample_count cls frames;
            w1 = w\<lparr>m_scratch32Pre := (if length (m_scratch32Pre w) < samples
                                       then resize (m_scratch32Pre w) samples else m_scratch32Pre w)\<rparr>;
            w2 = w1\<lparr>m_scratch32Post := (if length (m_scratch32Post w1) < samples
                                         then resize (m_scratch32Post w1) samples else m_scratch32Post w1)\<rparr>;
            dt = (frames, m_sampleRateOut v);
            (v3, w3) = call_preSupplyAudio cb dt (v, w2);
            (v4, w4) = midUpdate env (v3, w3);
            (oDone, v5, w5) = soxr_output env cb frames (v4, w4);
            w6 = w5\<lparr>m_scratch32Pre :=
                      poke (m_scratch32Pre w5) (map (out32 env) [0..<oDone * channels cls])\<rparr>
        in (oDone, v5,
            if oDone \<noteq> 0
            then
              let sends = (if m_sendMatrices v5 \<noteq> [] then m_sendMatrices v5
                           else [(m_mainSubmix w6, default_matrix cls w6)]);
                  (post, merge, hist) =
                     route_and_mix (routeAudio32 cb) cls dt oDone (m_busId w6) (m_scratch32Pre w6) sends
                       (m_scratch32Post w6, mergeBuf32 w6, cb_history w6)
              in w6\<lparr>m_scratch32Post := post, mergeBuf32 := merge, cb_history := hist\<rparr>
            else w6))"

text \<open>
  \<open>pumpAndMixFlt\<close> of the two classes: a vector that is too short is resized to two
  elements (mono) or four (stereo) more than the sample count.
\<close>

fun flt_pad :: "voice_class \<Rightarrow> nat" where
  "flt_pad Mono = 2"
| "flt_pad Stereo = 4"

definition pumpAndMixFlt_of ::
  "voice_class \<Rightarrow> ('d, 'f::zero) IAudioVoiceCallback \<Rightarrow> 'f soxr_env \<Rightarrow> nat \<Rightarrow>
   ('d, 'm) AudioVoice \<times> ('d, 'f, 'm) audio_world \<Rightarrow>
   nat \<times> ('d, 'm) AudioVoice \<times> ('d, 'f, 'm) audio_world" where
  "pumpAndMixFlt_of cls cb env frames vw =
     (case vw of (v, w) \<Rightarrow>
        let samples = sample_count cls frames;
            w1 = w\<lparr>m_scratchFltPre := (if length (m_scratchFltPre w) < samples
                                        then resize (m_scratchFltPre w) (size_t_add samples (flt_pad cls))
                                        else m_scratchFltPre w)\<rparr>;
            w2 = w1\<lparr>m_scratchFltPost := (if length (m_scratchFltPost w1) < samples
                                          then resize (m_scratchFltPost w1) (size_t_add samples (flt_pad cls))
                                          else m_scratchFltPost w1)\<rparr>;
            dt = (frames, m_sampleRateOut v);
            (v3, w3) = call_preSupplyAudio cb dt (v, w2);
            (v4, w4) = midUpdate env (v3, w3);
            (oDone, v5, w5) = soxr_output env cb frames (v4, w4);
            w6 = w5\<lparr>m_scratchFltPre :=
                      poke (m_scratchFltPre w5) (map (outFlt env) [0..<oDone * channels cls])\<rparr>
        in (oDone, v5,
            if oDone \<noteq> 0
            then
              let sends = (if m_sendMatrices v5 \<noteq> [] then m_sendMatrices v5
                           else [(m_mainSubmix w6, default_matrix cls w6)]);
                  (post, merge, hist) =
                     route_and_mix (routeAudioFlt cb) cls dt oDone (m_busId w6) (m_scratchFltPre w6) sends
                       (m_scratchFltPost w6, mergeBufFlt w6, cb_history w6)
              in w6\<lparr>m_scratchFltPost := post, mergeBufFlt := merge, cb_history := hist\<rparr>
            else w6))"

text \<open>The six methods by their names, and the virtual calls on a voice of either class.\<close>

definition AudioVoiceMono_pumpAndMix16 ::
  "('d, 'f) IAudioVoiceCallback \<Rightarrow> 'f soxr_env \<Rightarrow> nat \<Rightarrow>
   ('d, 'm) AudioVoice \<times> ('d, 'f, 'm) audio_world \<Rightarrow>
   nat \<times> ('d, 'm) AudioVoice \<times> ('d, 'f, 'm) audio_world" where
  "AudioVoiceMono_pumpAndMix16 = pumpAndMix16_of Mono"

definition AudioVoiceStereo_pumpAndMix16 ::
  "('d, 'f) IAudioVoiceCallback \<Rightarrow> 'f soxr_env \<Rightarrow> nat \<Rightarrow>
   ('d, 'm) AudioVoice \<times> ('d, 'f, 'm) audio_world \<Rightarrow>
   nat \<times> ('d, 'm) AudioVoice \<times> ('d, 'f, 'm) audio_world" where
  "AudioVoiceStereo_pumpAndMix16 = pumpAndMix16_of Stereo"

definition AudioVoiceMono_pumpAndMix32 ::
  "('d, 'f) IAudioVoiceCallback \<Rightarrow> 'f soxr_env \<Rightarrow> nat \<Rightarrow>
   ('d, 'm) AudioVoice \<times> ('d, 'f, 'm) audio_world \<Rightarrow>
   nat \<times> ('d, 'm) AudioVoice \<times> ('d, 'f, 'm) audio_world" where
  "AudioVoiceMono_pumpAndMix32 = pumpAndMix32_of Mono"

definition AudioVoiceStereo_pumpAndMix32 ::
  "('d, 'f) IAudioVoiceCallback \<Rightarrow> 'f soxr_env \<Rightarrow> nat \<Rightarrow>
   ('d, 'm) AudioVoice \<times> ('d, 'f, 'm) audio_world \<Rightarrow>
   nat \<times> ('d, 'm) AudioVoice \<times> ('d, 'f, 'm) audio_world" where
  "AudioVoiceStereo_pumpAndMix32 = pumpAndMix32_of Stereo"

definition AudioVoiceMono_pumpAndMixFlt ::
  "('d, 'f::zero) IAudioVoiceCallback \<Rightarrow> 'f soxr_env \<Rightarrow> nat \<Rightarrow>
   ('d, 'm) AudioVoice \<times> ('d, 'f, 'm) audio_world \<Rightarrow>
   nat \<times> ('d, 'm) AudioVoice \<times> ('d, 'f, 'm) audio_world" where
  "AudioVoiceMono_pumpAndMixFlt = pumpAndMixFlt_of Mono"

definition AudioVoiceStereo_pumpAndMixFlt ::
  "('d, 'f::zero) IAudioVoiceCallback \<Rightarrow> 'f soxr_env \<Rightarrow> nat \<Rightarrow>
   ('d, 'm) AudioVoice \<times> ('d, 'f, 'm) audio_world \<Rightarrow>
   nat \<times> ('d, 'm) AudioVoice \<times> ('d, 'f, 'm) audio_world" where
  "AudioVoiceStereo_pumpAndMixFlt = pumpAndMixFlt_of Stereo"

datatype pump_format = Fmt16 | Fmt32 | FmtFlt

definition pumpAndMix ::
  "pump_format \<Rightarrow> ('d, 'f::zero) IAudioVoiceCallback \<Rightarrow> 'f soxr_env \<Rightarrow> nat \<Rightarrow>
   ('d, 'm) AudioVoice \<times> ('d, 'f, 'm) audio_world \<Rightarrow>
   nat \<times> ('d, 'm) AudioVoice \<times> ('d, 'f, 'm) audio_world" where
  "pumpAndMix fmt cb env frames vw =
     (case (fmt, voice_class (fst vw)) of
        (Fmt16, Mono) \<Rightarrow> AudioVoiceMono_pumpAndMix16 cb env frames vw
      | (Fmt16, Stereo) \<Rightarrow> AudioVoiceStereo_pumpAndMix16 cb env frames vw
      | (Fmt32, Mono) \<Rightarrow> AudioVoiceMono_pumpAndMix32 cb env frames vw
      | (Fmt32, Stereo) \<Rightarrow> AudioVoiceStereo_pumpAndMix32 cb env frames vw
      | (FmtFlt, Mono) \<Rightarrow> AudioVoiceMono_pumpAndMixFlt cb env frames vw
      | (FmtFlt, Stereo) \<Rightarrow> AudioVoiceStereo_pumpAndMixFlt cb env frames vw)"

subsection \<open>A concrete voice, engine, client and resampler\<close>

text \<open>
  For the examples: doubles and float samples are integers here, matrices are numbers.
  The voice is a mono dynamic-rate voice at 32000 Hz in a 48000 Hz engine with no sends;
  the client supplies the samples 1, 2, 3 and routes audio unchanged; the resampler asks for four
  input frames and reports three output frames.
\<close>

definition example_voice :: "(int, nat) AudioVoice" where
  "example_voice =
     \<lparr>voice_class = Mono, m_dynamicRate = True, m_src = [],
      m_sampleRateIn = 32000, m_sampleRateOut = 48000,
      m_resetSampleRate = False, m_deferredSampleRate = 0,
      m_setPitchRatio = False, m_pitchRatio = 1, m_slew = False,
      m_silentOut = False, m_sendMatrices = []\<rparr>"

definition example_world :: "(int, int, nat) audio_world" where
  "example_world =
     \<lparr>m_scratchIn = [], m_scratch16Pre = [], m_scratch16Post = [],
      m_scratch32Pre = [], m_scratch32Post = [], m_scratchFltPre = [], m_scratchFltPost = [],
      m_5msFrames = 240, m_mixInfo_sampleRate = 48000, m_mixInfo_sampleFormat = SOXR_INT16_I,
      m_mainSubmix = 0, m_busId = (\<lambda>smx. int smx),
      mergeBuf16 = (\<lambda>smx. []), mergeBuf32 = (\<lambda>smx. []), mergeBufFlt = (\<lambda>smx. []),
      DefaultMonoMtx = 100, DefaultStereoMtx = 200,
      cb_history = [], log_reports = [],
      m_submixesDirty = False, AudioMatrixMono_default = 100, AudioMatrixStereo_default = 200,
      setMatrixCoefficientsMono = (\<lambda>m coefs slewFrames. m + 1),
      setMatrixCoefficientsStereo = (\<lambda>m coefs slewFrames. m + 1)\<rparr>"

definition example_client :: "(int, int) IAudioVoiceCallback" where
  "example_client =
     \<lparr>preSupplyAudio = (\<lambda>hist dt. []),
      supplyAudio = (\<lambda>hist frames. ([1, 2, 3], frames)),
      routeAudio16 = (\<lambda>hist frames chans dt bus block. block),
      routeAudio32 = (\<lambda>hist frames chans dt bus block. block),
      routeAudioFlt = (\<lambda>hist frames chans dt bus block. block)\<rparr>"



definition example_soxr :: "int soxr_env" where
  "example_soxr =
     \<lparr>create_fails = False, set_io_ratio_fails = False,
      input_requests = [4], output_done = 3,
      out16 = (\<lambda>i. of_nat (10 + i)), out32 = (\<lambda>i. of_nat (10 + i)), outFlt = (\<lambda>i. int (10 + i))\<rparr>"

subsection \<open>Sequences of calls that use the scratch vectors\<close>

text \<open>
  The engine's scratch vectors by name, and their sizes. What uses them is a pump of
  some voice in some format (with the voice's client and what the resampler does during
  that pump) or a call of a voice's input callback by its resampler. A sequence of such
  calls runs on the world; the voices come with the calls, in whatever state they are.
\<close>

datatype scratch_vector =
  ScratchIn | Scratch16Pre | Scratch16Post | Scratch32Pre | Scratch32Post | ScratchFltPre | ScratchFltPost

fun scratch_size :: "scratch_vector \<Rightarrow> ('d, 'f, 'm) audio_world \<Rightarrow> nat" where
  "scratch_size ScratchIn w = length (m_scratchIn w)"
| "scratch_size Scratch16Pre w = length (m_scratch16Pre w)"
| "scratch_size Scratch16Post w = length (m_scratch16Post w)"
| "scratch_size Scratch32Pre w = length (m_scratch32Pre w)"
| "scratch_size Scratch32Post w = length (m_scratch32Post w)"
| "scratch_size ScratchFltPre w = length (m_scratchFltPre w)"
| "scratch_size ScratchFltPost w = length (m_scratchFltPost w)"

datatype ('d, 'f, 'm) scratch_call =
    Pump pump_format "('d, 'f) IAudioVoiceCallback" "'f soxr_env" "('d, 'm) AudioVoice" nat
  | Input "('d, 'f) IAudioVoiceCallback" "('d, 'm) AudioVoice" nat

fun run_call :: "('d, 'f::zero, 'm) scratch_call \<Rightarrow> ('d, 'f, 'm) audio_world \<Rightarrow> ('d, 'f, 'm) audio_world" where
  "run_call (Pump fmt cb env v frames) w = snd (snd (pumpAndMix fmt cb env frames (v, w)))"
| "run_call (Input cb v frames) w = snd (SRCCallback cb v w frames)"

fun run_calls :: "('d, 'f::zero, 'm) scratch_call list \<Rightarrow> ('d, 'f, 'm) audio_world \<Rightarrow> ('d, 'f, 'm) audio_world" where
  "run_calls [] w = w"
| "run_calls (c # cs) w = run_calls cs (run_call c w)"

text \<open>
  The vectors a call uses, each with the frame count it is used for times the channel
  count of the call's voice: a pump uses the pre and post vectors of its format for its
  frame count, and the input vector for each request of the resampler.
\<close>

fun pre_vector :: "pump_format \<Rightarrow> scratch_vector" where
  "pre_vector Fmt16 = Scratch16Pre"
| "pre_vector Fmt32 = Scratch32Pre"
| "pre_vector FmtFlt = ScratchFltPre"

fun post_vector :: "pump_format \<Rightarrow> scratch_vector" where
  "post_vector Fmt16 = Scratch16Post"
| "post_vector Fmt32 = Scratch32Post"
| "post_vector FmtFlt = ScratchFltPost"

fun demands :: "('d, 'f, 'm) scratch_call \<Rightarrow> (scratch_vector \<times> nat) list" where
  "demands (Pump fmt cb env v frames) =
     [(pre_vector fmt, frames * channels (voice_class v)),
      (post_vector fmt, frames * channels (voice_class v))] @
     map (\<lambda>r. (ScratchIn, r * channels (voice_class v))) (input_requests env)"
| "demands (Input cb v frames) = [(ScratchIn, frames * channels (voice_class v))]"

text \<open>
  The frame counts of a call. A frame count is in range when the sample count of a
  stereo block of that many frames, with the four elements of padding, fits \<open>size_t\<close>.
\<close>

fun frame_counts :: "('d, 'f, 'm) scratch_call \<Rightarrow> nat list" where
  "frame_counts (Pump fmt cb env v frames) = frames # input_requests env"
| "frame_counts (Input cb v frames) = [frames]"

definition in_range :: "nat \<Rightarrow> bool" where
  "in_range frames = (frames * 2 + 4 < 2 ^ 64)"

definition calls_in_range :: "('d, 'f, 'm) scratch_call list \<Rightarrow> bool" where
  "calls_in_range cs = list_all (\<lambda>c. list_all in_range (frame_counts c)) cs"

text \<open>The largest demand that a list of calls makes on a vector; none is \<open>0\<close>.\<close>

definition max_demand :: "scratch_vector \<Rightarrow> ('d, 'f, 'm) scratch_call list \<Rightarrow> nat" where
  "max_demand vec cs =
     fold max (map snd (filter (\<lambda>d. fst d = vec) (concat (map demands cs)))) 0"

text \<open>
  A sequence for the examples: a 16-bit pump of the mono voice for three frames, an
  input callback of a stereo voice for five frames, and a float pump of the stereo voice
  for two frames.
\<close>

definition example_calls :: "(int, int, nat) scratch_call list" where
  "example_calls =
     [Pump Fmt16 example_client example_soxr example_voice 3,
      Input example_client (example_voice\<lparr>voice_class := Stereo\<rparr>) 5,
      Pump FmtFlt example_client example_soxr (example_voice\<lparr>voice_class := Stereo\<rparr>) 2]"

section \<open>Token lifetime: proofs\<close>

lemma data_drop_empty:
  "m_factory t = None \<Longrightarrow> m_data t = None \<Longrightarrow> data_drop x (t, calls) = (t, calls)"
  by (cases x) (simp_all add: GraphicsDataToken_dtor_def GraphicsDataToken_doDestroy_def)

lemma data_drops_empty:
  "m_factory t = None \<Longrightarrow> m_data t = None \<Longrightarrow> data_drops xs (t, calls) = (t, calls)"
  by (induction xs) (simp_all add: data_drop_empty)

lemma data_drop_held:
  "m_factory t = Some f \<Longrightarrow> m_data t = Some d \<Longrightarrow>
   data_drop x (t, calls) = (t\<lparr>m_factory := None, m_data := None\<rparr>, calls @ [DestroyData f d])"
  by (cases x) (simp_all add: GraphicsDataToken_dtor_def GraphicsDataToken_doDestroy_def)

lemma pool_drop_empty:
  "pool_m_factory t = None \<Longrightarrow> m_pool t = None \<Longrightarrow> pool_drop x (t, calls) = (t, calls)"
  by (cases x) (simp_all add: GraphicsBufferPoolToken_dtor_def GraphicsBufferPoolToken_doDestroy_def)

lemma pool_drops_empty:
  "pool_m_factory t = None \<Longrightarrow> m_pool t = None \<Longrightarrow> pool_drops xs (t, calls) = (t, calls)"
  by (induction xs) (simp_all add: pool_drop_empty)

lemma pool_drop_held:
  "pool_m_factory t = Some f \<Longrightarrow> m_pool t = Some p \<Longrightarrow>
   pool_drop x (t, calls) =
     (t\<lparr>pool_m_factory := None, m_pool := None\<rparr>, calls @ [DestroyPool f p])"
  by (cases x) (simp_all add: GraphicsBufferPoolToken_dtor_def GraphicsBufferPoolToken_doDestroy_def)

text \<open>
  C4. A token that holds a committed group (factory \<open>f\<close> and data \<open>d\<close>, both non-null)
  calls \<open>destroyData f d\<close> once at its first drop, whether that is the destructor or
  \<open>doDestroy\<close>, and every later drop of the same token adds no call: after any history
  of one or more drops the call log has grown by exactly that one call and the token is
  empty. The pool token does the same with \<open>destroyPool\<close>.
\<close>

theorem token_drop_destroys_exactly_once:
  fixes t :: "('f, 'd) GraphicsDataToken" and u :: "('f, 'p) GraphicsBufferPoolToken"
    and calls :: "('f, 'd, 'p) factory_call list"
  assumes "m_factory t = Some f" and "m_data t = Some d"
    and "pool_m_factory u = Some g" and "m_pool u = Some p"
  shows "data_drops (x # xs) (t, calls) =
           (t\<lparr>m_factory := None, m_data := None\<rparr>, calls @ [DestroyData f d])
       \<and> pool_drops (x # xs) (u, calls) =
           (u\<lparr>pool_m_factory := None, m_pool := None\<rparr>, calls @ [DestroyPool g p])"
proof
  show "data_drops (x # xs) (t, calls) =
           (t\<lparr>m_factory := None, m_data := None\<rparr>, calls @ [DestroyData f d])"
    using assms(1,2) by (simp add: data_drop_held data_drops_empty)
  show "pool_drops (x # xs) (u, calls) =
           (u\<lparr>pool_m_factory := None, m_pool := None\<rparr>, calls @ [DestroyPool g p])"
    using assms(3,4) by (simp add: pool_drop_held pool_drops_empty)
qed

theorem token_drop_destroys_exactly_once_witness:
  "data_drops [Dtor, DoDestroy, Dtor]
       (\<lparr>m_factory = Some (1::nat), m_data = Some (7::nat)\<rparr>, [] :: (nat, nat, nat) factory_call list) =
     (\<lparr>m_factory = None, m_data = None\<rparr>, [DestroyData 1 7])
   \<and> pool_drops [Dtor, DoDestroy, Dtor]
       (\<lparr>pool_m_factory = Some (1::nat), m_pool = Some (9::nat)\<rparr>, [] :: (nat, nat, nat) factory_call list) =
     (\<lparr>pool_m_factory = None, m_pool = None\<rparr>, [DestroyPool 1 9])"
  using token_drop_destroys_exactly_once
    [where t = "\<lparr>m_factory = Some (1::nat), m_data = Some (7::nat)\<rparr>" and f = 1 and d = 7
       and u = "\<lparr>pool_m_factory = Some (1::nat), m_pool = Some (9::nat)\<rparr>" and g = 1 and p = 9
       and x = Dtor and xs = "[DoDestroy, Dtor]" and calls = "[]"]
  by simp

text \<open>
  C5. The tokens are move-only. The deleted copy constructor and copy assignment are a
  compile-time matter: the model has no operation that copies a token. Move construction
  hands the factory and data pointers to the new token and leaves the source empty: its
  bool conversion is false and any history of drops of it makes no factory call. Move
  assignment first runs \<open>doDestroy\<close> on the destination, so the group the destination
  held (and only that one) is destroyed, and then takes the source's pointers, leaving the
  source empty.
\<close>

theorem token_move_only:
  fixes other this :: "('f, 'd) GraphicsDataToken"
    and pother pthis :: "('f, 'p) GraphicsBufferPoolToken"
    and calls :: "('f, 'd, 'p) factory_call list"
  shows "m_factory (fst (GraphicsDataToken_move other)) = m_factory other
       \<and> m_data (fst (GraphicsDataToken_move other)) = m_data other
       \<and> m_factory (snd (GraphicsDataToken_move other)) = None
       \<and> m_data (snd (GraphicsDataToken_move other)) = None
       \<and> GraphicsDataToken_bool (snd (GraphicsDataToken_move other)) = False
       \<and> data_drops ds (snd (GraphicsDataToken_move other), calls) =
           (snd (GraphicsDataToken_move other), calls)
       \<and> snd (snd (GraphicsDataToken_move_assign this other calls)) =
           calls @ (case (m_factory this, m_data this) of
                      (Some f, Some d) \<Rightarrow> [DestroyData f d] | _ \<Rightarrow> [])
       \<and> m_factory (fst (GraphicsDataToken_move_assign this other calls)) = m_factory other
       \<and> m_data (fst (GraphicsDataToken_move_assign this other calls)) = m_data other
       \<and> m_factory (fst (snd (GraphicsDataToken_move_assign this other calls))) = None
       \<and> m_data (fst (snd (GraphicsDataToken_move_assign this other calls))) = None
       \<and> pool_m_factory (fst (GraphicsBufferPoolToken_move pother)) = pool_m_factory pother
       \<and> m_pool (fst (GraphicsBufferPoolToken_move pother)) = m_pool pother
       \<and> pool_m_factory (snd (GraphicsBufferPoolToken_move pother)) = None
       \<and> m_pool (snd (GraphicsBufferPoolToken_move pother)) = None
       \<and> GraphicsBufferPoolToken_bool (snd (GraphicsBufferPoolToken_move pother)) = False
       \<and> pool_drops ds (snd (GraphicsBufferPoolToken_move pother), calls) =
           (snd (GraphicsBufferPoolToken_move pother), calls)
       \<and> snd (snd (GraphicsBufferPoolToken_move_assign pthis pother calls)) =
           calls @ (case (pool_m_factory pthis, m_pool pthis) of
                      (Some f, Some p) \<Rightarrow> [DestroyPool f p] | _ \<Rightarrow> [])
       \<and> pool_m_factory (fst (GraphicsBufferPoolToken_move_assign pthis pother calls)) =
           pool_m_factory pother
       \<and> m_pool (fst (GraphicsBufferPoolToken_move_assign pthis pother calls)) = m_pool pother
       \<and> pool_m_factory (fst (snd (GraphicsBufferPoolToken_move_assign pthis pother calls))) = None
       \<and> m_pool (fst (snd (GraphicsBufferPoolToken_move_assign pthis pother calls))) = None"
proof -
  have d1: "data_drops ds (snd (GraphicsDataToken_move other), calls) =
           (snd (GraphicsDataToken_move other), calls)"
    by (rule data_drops_empty) (simp_all add: GraphicsDataToken_move_def)
  have p1: "pool_drops ds (snd (GraphicsBufferPoolToken_move pother), calls) =
           (snd (GraphicsBufferPoolToken_move pother), calls)"
    by (rule pool_drops_empty) (simp_all add: GraphicsBufferPoolToken_move_def)
  have d2: "snd (snd (GraphicsDataToken_move_assign this other calls)) =
           calls @ (case (m_factory this, m_data this) of
                      (Some f, Some d) \<Rightarrow> [DestroyData f d] | _ \<Rightarrow> [])"
    by (simp add: GraphicsDataToken_move_assign_def GraphicsDataToken_doDestroy_def
          split: option.splits)
  have p2: "snd (snd (GraphicsBufferPoolToken_move_assign pthis pother calls)) =
           calls @ (case (pool_m_factory pthis, m_pool pthis) of
                      (Some f, Some p) \<Rightarrow> [DestroyPool f p] | _ \<Rightarrow> [])"
    by (simp add: GraphicsBufferPoolToken_move_assign_def GraphicsBufferPoolToken_doDestroy_def
          split: option.splits)
  have d3: "m_factory (fst (GraphicsDataToken_move_assign this other calls)) = m_factory other
       \<and> m_data (fst (GraphicsDataToken_move_assign this other calls)) = m_data other
       \<and> m_factory (fst (snd (GraphicsDataToken_move_assign this other calls))) = None
       \<and> m_data (fst (snd (GraphicsDataToken_move_assign this other calls))) = None"
    by (simp add: GraphicsDataToken_move_assign_def split: prod.splits)
  have p3: "pool_m_factory (fst (GraphicsBufferPoolToken_move_assign pthis pother calls)) =
           pool_m_factory pother
       \<and> m_pool (fst (GraphicsBufferPoolToken_move_assign pthis pother calls)) = m_pool pother
       \<and> pool_m_factory (fst (snd (GraphicsBufferPoolToken_move_assign pthis pother calls))) = None
       \<and> m_pool (fst (snd (GraphicsBufferPoolToken_move_assign pthis pother calls))) = None"
    by (simp add: GraphicsBufferPoolToken_move_assign_def split: prod.splits)
  have d0: "m_factory (fst (GraphicsDataToken_move other)) = m_factory other
       \<and> m_data (fst (GraphicsDataToken_move other)) = m_data other
       \<and> m_factory (snd (GraphicsDataToken_move other)) = None
       \<and> m_data (snd (GraphicsDataToken_move other)) = None
       \<and> GraphicsDataToken_bool (snd (GraphicsDataToken_move other)) = False"
    by (simp add: GraphicsDataToken_move_def GraphicsDataToken_bool_def)
  have p0: "pool_m_factory (fst (GraphicsBufferPoolToken_move pother)) = pool_m_factory pother
       \<and> m_pool (fst (GraphicsBufferPoolToken_move pother)) = m_pool pother
       \<and> pool_m_factory (snd (GraphicsBufferPoolToken_move pother)) = None
       \<and> m_pool (snd (GraphicsBufferPoolToken_move pother)) = None
       \<and> GraphicsBufferPoolToken_bool (snd (GraphicsBufferPoolToken_move pother)) = False"
    by (simp add: GraphicsBufferPoolToken_move_def GraphicsBufferPoolToken_bool_def)
  from d0 d1 d2 d3 p0 p1 p2 p3 show ?thesis by blast
qed

theorem token_move_only_witness:
  "GraphicsDataToken_move \<lparr>m_factory = Some (1::nat), m_data = Some (7::nat)\<rparr> =
     (\<lparr>m_factory = Some 1, m_data = Some 7\<rparr>, \<lparr>m_factory = None, m_data = None\<rparr>)
   \<and> snd (snd (GraphicsDataToken_move_assign
        \<lparr>m_factory = Some (1::nat), m_data = Some (7::nat)\<rparr>
        \<lparr>m_factory = Some 2, m_data = Some 8\<rparr>
        ([] :: (nat, nat, nat) factory_call list))) = [DestroyData 1 7]
   \<and> snd (snd (GraphicsBufferPoolToken_move_assign
        \<lparr>pool_m_factory = Some (1::nat), m_pool = Some (9::nat)\<rparr>
        \<lparr>pool_m_factory = Some 2, m_pool = Some 5\<rparr>
        ([] :: (nat, nat, nat) factory_call list))) = [DestroyPool 1 9]"
  using token_move_only
    [where other = "\<lparr>m_factory = Some (2::nat), m_data = Some (8::nat)\<rparr>"
       and this = "\<lparr>m_factory = Some (1::nat), m_data = Some (7::nat)\<rparr>"
       and pother = "\<lparr>pool_m_factory = Some (2::nat), m_pool = Some (5::nat)\<rparr>"
       and pthis = "\<lparr>pool_m_factory = Some (1::nat), m_pool = Some (9::nat)\<rparr>"
       and calls = "[] :: (nat, nat, nat) factory_call list" and ds = "[Dtor]"]
  by (simp add: GraphicsDataToken_move_def)

section \<open>Hot-plug listener: proofs\<close>

lemma deviceConnected_inserts_iff:
  "(m_finder (deviceConnected os l h) \<noteq> m_finder l) =
   (m_scanningEnabled l \<and> \<not> hasToken (m_finder l) h)"
  by (simp add: deviceConnected_def insertToken_def)

lemma uniqueHandles_step: "uniqueHandles l \<Longrightarrow> uniqueHandles (hid_step os e l)"
proof (cases e)
  case (Connect h)
  assume "uniqueHandles l"
  then show ?thesis using Connect
    by (simp add: uniqueHandles_def deviceConnected_def hasToken_def insertToken_def)
next
  case (Disconnect b h)
  assume "uniqueHandles l"
  then show ?thesis using Disconnect
    by (simp add: uniqueHandles_def deviceDisconnected_def removeToken_def distinct_map_filter)
next
  case RunLoopBlock
  assume "uniqueHandles l"
  then show ?thesis using RunLoopBlock
    by (simp add: uniqueHandles_def deviceDisconnected_def removeToken_def distinct_map_filter
          split: list.splits)
next
  case StartScanning
  assume "uniqueHandles l"
  then show ?thesis using StartScanning by (simp add: uniqueHandles_def startScanning_def)
next
  case StopScanning
  assume "uniqueHandles l"
  then show ?thesis using StopScanning by (simp add: uniqueHandles_def stopScanning_def)
qed

lemma uniqueHandles_run: "uniqueHandles l \<Longrightarrow> uniqueHandles (hid_run os es l)"
  by (induction es arbitrary: l) (simp_all add: uniqueHandles_step)

lemma distinct_count_le_1:
  "distinct (map f xs) \<Longrightarrow> length (filter (\<lambda>t. f t = h) xs) \<le> 1"
proof (induction xs)
  case Nil
  show ?case by simp
next
  case (Cons a xs)
  show ?case
  proof (cases "f a = h")
    case True
    with Cons.prems have "h \<notin> f ` set xs" by auto
    then have "filter (\<lambda>t. f t = h) xs = []" by (auto simp: filter_empty_conv)
    with True show ?thesis by simp
  next
    case False
    with Cons show ?thesis by simp
  qed
qed

lemma member_count_pos:
  "h \<in> set (map f xs) \<Longrightarrow> 0 < length (filter (\<lambda>t. f t = h) xs)"
  by (induction xs) auto

lemma connect_scanning_exactly_one:
  assumes u: "uniqueHandles l" and s: "m_scanningEnabled l"
  shows "length (tokensFor (deviceConnected os l h) h) = 1"
proof -
  have "uniqueHandles (hid_step os (Connect h) l)" using u by (rule uniqueHandles_step)
  then have le: "length (tokensFor (deviceConnected os l h) h) \<le> 1"
    unfolding uniqueHandles_def tokensFor_def hid_step.simps by (rule distinct_count_le_1)
  have "h \<in> set (map m_devHandle (m_finder (deviceConnected os l h)))"
    using s by (simp add: deviceConnected_def hasToken_def insertToken_def)
  then have "0 < length (tokensFor (deviceConnected os l h) h)"
    unfolding tokensFor_def by (rule member_count_pos)
  with le show ?thesis by linarith
qed

text \<open>
  C8. A device-connect event inserts a token exactly when scanning is enabled and the
  set has no token for the handle; the token it inserts carries that handle, and
  otherwise the set is left as it was. From a set with at most one token for each
  handle, a connect of \<open>H\<close> while scanning leaves exactly one token for \<open>H\<close>, and no
  sequence of events (repeated connects of \<open>H\<close> among them) ever leaves a second one.
\<close>

theorem deviceConnected_one_token_per_handle:
  fixes l :: "'h CHIDListenerIOKit"
  assumes "uniqueHandles l"
  shows "((m_finder (deviceConnected os l H) \<noteq> m_finder l) =
            (m_scanningEnabled l \<and> \<not> hasToken (m_finder l) H))
       \<and> (if m_scanningEnabled l \<and> \<not> hasToken (m_finder l) H
           then \<exists>tok. m_devHandle tok = H \<and> m_finder (deviceConnected os l H) = m_finder l @ [tok]
           else deviceConnected os l H = l)
       \<and> (if m_scanningEnabled l
           then length (tokensFor (deviceConnected os l H) H) = 1
           else tokensFor (deviceConnected os l H) H = tokensFor l H)
       \<and> length (tokensFor (hid_run os es l) H) \<le> 1
       \<and> uniqueHandles (hid_run os es l)"
proof -
  have a: "(m_finder (deviceConnected os l H) \<noteq> m_finder l) =
            (m_scanningEnabled l \<and> \<not> hasToken (m_finder l) H)"
    by (rule deviceConnected_inserts_iff)
  have b: "if m_scanningEnabled l \<and> \<not> hasToken (m_finder l) H
           then \<exists>tok. m_devHandle tok = H \<and> m_finder (deviceConnected os l H) = m_finder l @ [tok]
           else deviceConnected os l H = l"
    by (auto simp: deviceConnected_def insertToken_def)
  have c: "if m_scanningEnabled l
           then length (tokensFor (deviceConnected os l H) H) = 1
           else tokensFor (deviceConnected os l H) H = tokensFor l H"
    using assms by (simp add: connect_scanning_exactly_one) (simp add: deviceConnected_def)
  have e: "uniqueHandles (hid_run os es l)" using assms by (rule uniqueHandles_run)
  then have d: "length (tokensFor (hid_run os es l) H) \<le> 1"
    unfolding uniqueHandles_def tokensFor_def by (rule distinct_count_le_1)
  from a b c d e show ?thesis by blast
qed

theorem deviceConnected_one_token_per_handle_witness:
  "uniqueHandles \<lparr>m_finder = [] :: nat CDeviceToken list, m_scanningEnabled = True, runLoopBlocks = []\<rparr>
   \<and> map m_devHandle (m_finder (hid_run (\<lambda>h. \<lparr>prop_vendorId = 1406, prop_productId = 823,
          prop_manufacturer = ''Nintendo'', prop_product = ''Adapter''\<rparr>)
        [Connect 5, Disconnect True 5, Connect 5, Connect 5]
        \<lparr>m_finder = [] :: nat CDeviceToken list, m_scanningEnabled = True, runLoopBlocks = []\<rparr>)) = [5]
   \<and> length (tokensFor (hid_run (\<lambda>h. \<lparr>prop_vendorId = 1406, prop_productId = 823,
          prop_manufacturer = ''Nintendo'', prop_product = ''Adapter''\<rparr>)
        [Connect 5, Disconnect True 5, Connect 5, Connect 5]
        \<lparr>m_finder = [] :: nat CDeviceToken list, m_scanningEnabled = True, runLoopBlocks = []\<rparr>) 5) \<le> 1"
proof -
  have u: "uniqueHandles \<lparr>m_finder = [] :: nat CDeviceToken list, m_scanningEnabled = True, runLoopBlocks = []\<rparr>"
    by (simp add: uniqueHandles_def)
  have r: "map m_devHandle (m_finder (hid_run (\<lambda>h. \<lparr>prop_vendorId = 1406, prop_productId = 823,
          prop_manufacturer = ''Nintendo'', prop_product = ''Adapter''\<rparr>)
        [Connect 5, Disconnect True 5, Connect 5, Connect 5]
        \<lparr>m_finder = [] :: nat CDeviceToken list, m_scanningEnabled = True, runLoopBlocks = []\<rparr>)) = [5]"
    by (simp add: deviceConnected_def deviceDisconnected_def hasToken_def insertToken_def
          removeToken_def)
  show ?thesis
    using u r deviceConnected_one_token_per_handle [OF u, where H = 5
      and es = "[Connect 5, Disconnect True 5, Connect 5, Connect 5]"
      and os = "\<lambda>h. \<lparr>prop_vendorId = 1406, prop_productId = 823,
          prop_manufacturer = ''Nintendo'', prop_product = ''Adapter''\<rparr>"]
    by blast
qed

section \<open>MIDI endpoint constructors: proofs\<close>










section \<open>The hardware callback: proofs\<close>

lemma floor_period_ns:
  assumes "0 < rate"
  shows "\<lfloor>real pf / real rate * 1000000000\<rfloor> = int ((pf * 1000000000) div rate)"
proof -
  have "real pf / real rate * 1000000000 = real (pf * 1000000000) / real rate"
    by simp
  then show ?thesis
    by (simp only: floor_divide_of_nat_eq)
qed

text \<open>
  C7. The callback runs with the engine's callback flag on and finds no client in
  retrace, so it waits on the enter condition. The wait is for
  \<open>periodFrames / sampleRate\<close> seconds, counted in whole nanoseconds (for a sample rate
  that is a whole number of Hz, as the device's is). When that wait times out, whatever
  the client did to \<open>m_inRetrace\<close> in the meantime, the callback sets the buffer's byte
  size to \<open>m_frameBytes\<close> (the bytes of one period), zeroes that many bytes, hands the
  buffer back to the queue, wakes the client, clears \<open>m_inCb\<close> and returns; it does not
  call \<open>_pumpAndMixVoices\<close>.
\<close>

theorem Callback_timeout_enqueues_silence:
  assumes "m_cbRunning e" and "\<not> m_inRetrace e" and "wait_timed_out env"
    and "mixInfo_sampleRate e = real rate" and "0 < rate" and "rate < 2 ^ 64"
    and "mixInfo_periodFrames e * 1000000000 < 2 ^ 63"
    and "m_frameBytes e \<le> length (mAudioData buf)" and "m_frameBytes e < 2 ^ 32"
  shows "Callback env e buf =
           Inr (e\<lparr>m_inCb := False, m_inRetrace := inRetrace_after_wait env\<rparr>,
                \<lparr>mAudioDataByteSize = m_frameBytes e,
                 mAudioData = replicate (m_frameBytes e) 0 @ drop (m_frameBytes e) (mAudioData buf)\<rparr>,
                [WaitFor \<lfloor>real (mixInfo_periodFrames e) / mixInfo_sampleRate e * 1000000000\<rfloor>,
                 AudioQueueEnqueueBuffer
                   \<lparr>mAudioDataByteSize = m_frameBytes e,
                    mAudioData = replicate (m_frameBytes e) 0 @ drop (m_frameBytes e) (mAudioData buf)\<rparr>,
                 NotifyLeave])
       \<and> (\<forall>e' buf' evs. Callback env e buf = Inr (e', buf', evs) \<longrightarrow>
             pumps evs = [] \<and> \<not> m_inCb e'
             \<and> take (m_frameBytes e) (mAudioData buf') = replicate (m_frameBytes e) 0)"
proof -
  have sz: "size_t_of_double (mixInfo_sampleRate e) = Inr rate"
    using assms(4,5,6) by (simp add: size_t_of_double_def)
  have lt: "(mixInfo_periodFrames e * 1000000000) div rate < 2 ^ 63"
    using assms(7) by (meson div_le_dividend le_less_trans)
  have md: "(mixInfo_periodFrames e * 1000000000) mod 2 ^ 64 = mixInfo_periodFrames e * 1000000000"
    using assms(7) by simp
  have ns: "nanoseconds (((mixInfo_periodFrames e * 1000000000) mod 2 ^ 64) div rate) =
      \<lfloor>real (mixInfo_periodFrames e) / mixInfo_sampleRate e * 1000000000\<rfloor>"
    using lt assms(5) by (simp only: md nanoseconds_def assms(4) floor_period_ns if_True)
  have ms: "memset_zero (mAudioData buf) (m_frameBytes e) =
      Inr (replicate (m_frameBytes e) 0 @ drop (m_frameBytes e) (mAudioData buf))"
    using assms(8) by (simp add: memset_zero_def)
  have bs: "m_frameBytes e mod 4294967296 = m_frameBytes e"
    using assms(9) by simp
  have rec: "buf\<lparr>mAudioDataByteSize := m_frameBytes e,
                mAudioData := replicate (m_frameBytes e) 0 @ drop (m_frameBytes e) (mAudioData buf)\<rparr> =
             \<lparr>mAudioDataByteSize = m_frameBytes e,
              mAudioData = replicate (m_frameBytes e) 0 @ drop (m_frameBytes e) (mAudioData buf)\<rparr>"
    by simp
  have main: "Callback env e buf =
           Inr (e\<lparr>m_inCb := False, m_inRetrace := inRetrace_after_wait env\<rparr>,
                \<lparr>mAudioDataByteSize = m_frameBytes e,
                 mAudioData = replicate (m_frameBytes e) 0 @ drop (m_frameBytes e) (mAudioData buf)\<rparr>,
                [WaitFor \<lfloor>real (mixInfo_periodFrames e) / mixInfo_sampleRate e * 1000000000\<rfloor>,
                 AudioQueueEnqueueBuffer
                   \<lparr>mAudioDataByteSize = m_frameBytes e,
                    mAudioData = replicate (m_frameBytes e) 0 @ drop (m_frameBytes e) (mAudioData buf)\<rparr>,
                 NotifyLeave])"
    using assms(1,2,3,5) ns
    by (simp add: Callback_def Callback_silence_def Let_def sz ms bs rec)
  show ?thesis
    by (rule conjI, rule main) (simp add: main pumps_def)
qed

theorem Callback_timeout_enqueues_silence_witness:
  "Callback \<lparr>wait_timed_out = True, inRetrace_after_wait = True, pump_writes = (\<lambda>d. d)\<rparr>
      engine_with_client
      \<lparr>mAudioDataByteSize = 0, mAudioData = [1, 2, 3, 4, 5, 6, 7, 8, 9]\<rparr> =
     Inr (engine_with_client\<lparr>m_inRetrace := True\<rparr>,
          \<lparr>mAudioDataByteSize = 8, mAudioData = [0, 0, 0, 0, 0, 0, 0, 0, 9]\<rparr>,
          [WaitFor 20833,
           AudioQueueEnqueueBuffer
             \<lparr>mAudioDataByteSize = 8, mAudioData = [0, 0, 0, 0, 0, 0, 0, 0, 9]\<rparr>,
           NotifyLeave])"
proof -
  have fl: "\<lfloor>(1::real) / 48000 * 1000000000\<rfloor> = 20833"
    by (simp add: floor_eq_iff)
  have r: "replicate 8 (0::8 word) = [0, 0, 0, 0, 0, 0, 0, 0]"
    by (simp add: numeral_eq_Suc)
  show ?thesis
    using Callback_timeout_enqueues_silence
      [where e = engine_with_client and rate = 48000
         and env = "\<lparr>wait_timed_out = True, inRetrace_after_wait = True, pump_writes = (\<lambda>d. d)\<rparr>"
         and buf = "\<lparr>mAudioDataByteSize = 0, mAudioData = [1, 2, 3, 4, 5, 6, 7, 8, 9]\<rparr>"]
    by (simp add: engine_with_client_def fl r)
qed

section \<open>Deferred parameters: proofs\<close>

lemma apply_request_voice_frame:
  "m_src (fst (apply_request r vw)) = m_src (fst vw)"
  "m_dynamicRate (fst (apply_request r vw)) = m_dynamicRate (fst vw)"
  "voice_class (fst (apply_request r vw)) = voice_class (fst vw)"
  "m_sampleRateIn (fst (apply_request r vw)) = m_sampleRateIn (fst vw)"
  "m_sampleRateOut (fst (apply_request r vw)) = m_sampleRateOut (fst vw)"
  "m_silentOut (fst (apply_request r vw)) = m_silentOut (fst vw)"
  by (cases vw; cases r;
      simp add: setPitchRatio_def resetSampleRate_def resetChannelLevels_def
        AudioVoiceMono_setMonoChannelLevels_def AudioVoiceMono_setStereoChannelLevels_def
        AudioVoiceStereo_setMonoChannelLevels_def AudioVoiceStereo_setStereoChannelLevels_def Let_def
        split: voice_class.splits)+

lemma apply_request_world_frame:
  "m_scratchIn (snd (apply_request r vw)) = m_scratchIn (snd vw)"
  "m_scratch16Pre (snd (apply_request r vw)) = m_scratch16Pre (snd vw)"
  "m_scratch16Post (snd (apply_request r vw)) = m_scratch16Post (snd vw)"
  "m_scratch32Pre (snd (apply_request r vw)) = m_scratch32Pre (snd vw)"
  "m_scratch32Post (snd (apply_request r vw)) = m_scratch32Post (snd vw)"
  "m_scratchFltPre (snd (apply_request r vw)) = m_scratchFltPre (snd vw)"
  "m_scratchFltPost (snd (apply_request r vw)) = m_scratchFltPost (snd vw)"
  "m_5msFrames (snd (apply_request r vw)) = m_5msFrames (snd vw)"
  "m_mixInfo_sampleRate (snd (apply_request r vw)) = m_mixInfo_sampleRate (snd vw)"
  "m_mixInfo_sampleFormat (snd (apply_request r vw)) = m_mixInfo_sampleFormat (snd vw)"
  "m_mainSubmix (snd (apply_request r vw)) = m_mainSubmix (snd vw)"
  "m_busId (snd (apply_request r vw)) = m_busId (snd vw)"
  "mergeBuf16 (snd (apply_request r vw)) = mergeBuf16 (snd vw)"
  "mergeBuf32 (snd (apply_request r vw)) = mergeBuf32 (snd vw)"
  "mergeBufFlt (snd (apply_request r vw)) = mergeBufFlt (snd vw)"
  "DefaultMonoMtx (snd (apply_request r vw)) = DefaultMonoMtx (snd vw)"
  "DefaultStereoMtx (snd (apply_request r vw)) = DefaultStereoMtx (snd vw)"
  "cb_history (snd (apply_request r vw)) = cb_history (snd vw)"
  "log_reports (snd (apply_request r vw)) = log_reports (snd vw)"
  "AudioMatrixMono_default (snd (apply_request r vw)) = AudioMatrixMono_default (snd vw)"
  "AudioMatrixStereo_default (snd (apply_request r vw)) = AudioMatrixStereo_default (snd vw)"
  "setMatrixCoefficientsMono (snd (apply_request r vw)) = setMatrixCoefficientsMono (snd vw)"
  "setMatrixCoefficientsStereo (snd (apply_request r vw)) = setMatrixCoefficientsStereo (snd vw)"
  by (cases vw; cases r;
      simp add: setPitchRatio_def resetSampleRate_def resetChannelLevels_def
        AudioVoiceMono_setMonoChannelLevels_def AudioVoiceMono_setStereoChannelLevels_def
        AudioVoiceStereo_setMonoChannelLevels_def AudioVoiceStereo_setStereoChannelLevels_def Let_def
        split: voice_class.splits)+

lemma apply_requests_voice_frame:
  "m_src (fst (apply_requests rs vw)) = m_src (fst vw)"
  "m_dynamicRate (fst (apply_requests rs vw)) = m_dynamicRate (fst vw)"
  "voice_class (fst (apply_requests rs vw)) = voice_class (fst vw)"
  "m_sampleRateIn (fst (apply_requests rs vw)) = m_sampleRateIn (fst vw)"
  "m_sampleRateOut (fst (apply_requests rs vw)) = m_sampleRateOut (fst vw)"
  "m_silentOut (fst (apply_requests rs vw)) = m_silentOut (fst vw)"
  by (induction rs arbitrary: vw; simp add: apply_request_voice_frame)+

lemma apply_requests_world_frame:
  "m_scratchIn (snd (apply_requests rs vw)) = m_scratchIn (snd vw)"
  "m_scratch16Pre (snd (apply_requests rs vw)) = m_scratch16Pre (snd vw)"
  "m_scratch16Post (snd (apply_requests rs vw)) = m_scratch16Post (snd vw)"
  "m_scratch32Pre (snd (apply_requests rs vw)) = m_scratch32Pre (snd vw)"
  "m_scratch32Post (snd (apply_requests rs vw)) = m_scratch32Post (snd vw)"
  "m_scratchFltPre (snd (apply_requests rs vw)) = m_scratchFltPre (snd vw)"
  "m_scratchFltPost (snd (apply_requests rs vw)) = m_scratchFltPost (snd vw)"
  "m_5msFrames (snd (apply_requests rs vw)) = m_5msFrames (snd vw)"
  "m_mixInfo_sampleRate (snd (apply_requests rs vw)) = m_mixInfo_sampleRate (snd vw)"
  "m_mixInfo_sampleFormat (snd (apply_requests rs vw)) = m_mixInfo_sampleFormat (snd vw)"
  "m_mainSubmix (snd (apply_requests rs vw)) = m_mainSubmix (snd vw)"
  "m_busId (snd (apply_requests rs vw)) = m_busId (snd vw)"
  "mergeBuf16 (snd (apply_requests rs vw)) = mergeBuf16 (snd vw)"
  "mergeBuf32 (snd (apply_requests rs vw)) = mergeBuf32 (snd vw)"
  "mergeBufFlt (snd (apply_requests rs vw)) = mergeBufFlt (snd vw)"
  "DefaultMonoMtx (snd (apply_requests rs vw)) = DefaultMonoMtx (snd vw)"
  "DefaultStereoMtx (snd (apply_requests rs vw)) = DefaultStereoMtx (snd vw)"
  "cb_history (snd (apply_requests rs vw)) = cb_history (snd vw)"
  "log_reports (snd (apply_requests rs vw)) = log_reports (snd vw)"
  "AudioMatrixMono_default (snd (apply_requests rs vw)) = AudioMatrixMono_default (snd vw)"
  "AudioMatrixStereo_default (snd (apply_requests rs vw)) = AudioMatrixStereo_default (snd vw)"
  "setMatrixCoefficientsMono (snd (apply_requests rs vw)) = setMatrixCoefficientsMono (snd vw)"
  "setMatrixCoefficientsStereo (snd (apply_requests rs vw)) = setMatrixCoefficientsStereo (snd vw)"
  by (induction rs arbitrary: vw; simp add: apply_request_world_frame)+

lemma apply_request_voice_cong:
  assumes "m_mainSubmix w2 = m_mainSubmix w1"
    and "m_5msFrames w2 = m_5msFrames w1"
    and "AudioMatrixMono_default w2 = AudioMatrixMono_default w1"
    and "AudioMatrixStereo_default w2 = AudioMatrixStereo_default w1"
    and "setMatrixCoefficientsMono w2 = setMatrixCoefficientsMono w1"
    and "setMatrixCoefficientsStereo w2 = setMatrixCoefficientsStereo w1"
  shows "fst (apply_request r (v, w2)) = fst (apply_request r (v, w1))"
proof (cases r)
  case (Req_setPitchRatio x11 x12)
  then show ?thesis by simp
next
  case (Req_resetSampleRate x2)
  then show ?thesis by simp
next
  case Req_resetChannelLevels
  then show ?thesis by (simp add: resetChannelLevels_def)
next
  case (Req_setMonoChannelLevels x41 x42 x43)
  then show ?thesis
    by (cases "voice_class v")
       (simp_all only: apply_request.simps voice_class.case AudioVoiceMono_setMonoChannelLevels_def
          AudioVoiceStereo_setMonoChannelLevels_def Let_def prod.case fst_conv assms)
next
  case (Req_setStereoChannelLevels x51 x52 x53)
  then show ?thesis
    by (cases "voice_class v")
       (simp_all only: apply_request.simps voice_class.case AudioVoiceMono_setStereoChannelLevels_def
          AudioVoiceStereo_setStereoChannelLevels_def Let_def prod.case fst_conv assms)
qed

lemma apply_requests_voice_cong:
  assumes "m_mainSubmix w2 = m_mainSubmix w1"
    and "m_5msFrames w2 = m_5msFrames w1"
    and "AudioMatrixMono_default w2 = AudioMatrixMono_default w1"
    and "AudioMatrixStereo_default w2 = AudioMatrixStereo_default w1"
    and "setMatrixCoefficientsMono w2 = setMatrixCoefficientsMono w1"
    and "setMatrixCoefficientsStereo w2 = setMatrixCoefficientsStereo w1"
  shows "fst (apply_requests rs (v, w2)) = fst (apply_requests rs (v, w1))"
  using assms
proof (induction rs arbitrary: v w1 w2)
  case Nil
  show ?case by simp
next
  case (Cons r rs)
  have e: "fst (apply_request r (v, w2)) = fst (apply_request r (v, w1))"
    using Cons.prems by (rule apply_request_voice_cong)
  have s: "apply_requests rs (apply_request r (v, w2)) =
           apply_requests rs (fst (apply_request r (v, w1)), snd (apply_request r (v, w2)))"
    by (simp add: e [symmetric])
  have ih: "fst (apply_requests rs (fst (apply_request r (v, w1)), snd (apply_request r (v, w2)))) =
            fst (apply_requests rs (fst (apply_request r (v, w1)), snd (apply_request r (v, w1))))"
    using Cons.prems by (intro Cons.IH) (simp_all add: apply_request_world_frame)
  show ?case unfolding apply_requests.simps s using ih by simp
qed

lemma apply_requests_voice_upd:
  "fst (apply_requests rs (v, w\<lparr>m_scratch16Pre := x0\<rparr>)) = fst (apply_requests rs (v, w))"
  "fst (apply_requests rs (v, w\<lparr>m_scratch16Post := x1\<rparr>)) = fst (apply_requests rs (v, w))"
  "fst (apply_requests rs (v, w\<lparr>m_scratch32Pre := x2\<rparr>)) = fst (apply_requests rs (v, w))"
  "fst (apply_requests rs (v, w\<lparr>m_scratch32Post := x3\<rparr>)) = fst (apply_requests rs (v, w))"
  "fst (apply_requests rs (v, w\<lparr>m_scratchFltPre := x4\<rparr>)) = fst (apply_requests rs (v, w))"
  "fst (apply_requests rs (v, w\<lparr>m_scratchFltPost := x5\<rparr>)) = fst (apply_requests rs (v, w))"
  "fst (apply_requests rs (v, w\<lparr>cb_history := x6\<rparr>)) = fst (apply_requests rs (v, w))"
  by (rule apply_requests_voice_cong; simp)+

lemmas apply_requests_frame =
  apply_requests_voice_frame apply_requests_world_frame apply_requests_voice_upd

lemma midUpdate_src:
  "m_src (fst (midUpdate env (v, w))) =
     m_src v @
     (if m_resetSampleRate v
      then [Soxr_delete,
            Soxr_create (m_deferredSampleRate v) (m_mixInfo_sampleRate w) (channels (voice_class v))
              (m_mixInfo_sampleFormat w) (m_dynamicRate v)] @
           (if create_fails env then [] else [Soxr_set_input_fn])
      else []) @
     (if m_dynamicRate v \<and> (m_setPitchRatio v \<or> (m_resetSampleRate v \<and> \<not> create_fails env))
      then [if m_resetSampleRate v \<and> \<not> create_fails env
            then Soxr_set_io_ratio (m_pitchRatio v) (m_deferredSampleRate v) (m_mixInfo_sampleRate w) 0
            else Soxr_set_io_ratio (m_pitchRatio v) (m_sampleRateIn v) (m_sampleRateOut v)
                   (if m_slew v then m_5msFrames w else 0)]
      else [])"
  by (cases "voice_class v")
     (simp_all add: midUpdate_def AudioVoiceMono_resetSampleRate_def AudioVoiceStereo_resetSampleRate_def
        internal_resetSampleRate_def internal_setPitchRatio_def Let_def split: prod.splits)

lemma midUpdate_flags:
  "m_resetSampleRate (fst (midUpdate env (v, w))) = False"
  "m_setPitchRatio (fst (midUpdate env (v, w))) = False"
  by (cases "voice_class v";
     simp add: midUpdate_def AudioVoiceMono_resetSampleRate_def AudioVoiceStereo_resetSampleRate_def
        internal_resetSampleRate_def internal_setPitchRatio_def Let_def split: prod.splits)+

lemma pump16_src:
  "m_src (fst (snd (pumpAndMix16_of cls cb env frames (v, w)))) =
     m_src (fst (midUpdate env
        (fst (apply_requests (preSupplyAudio cb (cb_history w) (frames, m_sampleRateOut v)) (v, w)), w))) @
     [Soxr_output frames]"
  "m_resetSampleRate (fst (snd (pumpAndMix16_of cls cb env frames (v, w)))) = False"
  "m_setPitchRatio (fst (snd (pumpAndMix16_of cls cb env frames (v, w)))) = False"
  by (simp_all add: pumpAndMix16_of_def Let_def case_prod_beta call_preSupplyAudio_def soxr_output_def
        midUpdate_src midUpdate_flags apply_requests_frame)

lemma pump32_src:
  "m_src (fst (snd (pumpAndMix32_of cls cb env frames (v, w)))) =
     m_src (fst (midUpdate env
        (fst (apply_requests (preSupplyAudio cb (cb_history w) (frames, m_sampleRateOut v)) (v, w)), w))) @
     [Soxr_output frames]"
  "m_resetSampleRate (fst (snd (pumpAndMix32_of cls cb env frames (v, w)))) = False"
  "m_setPitchRatio (fst (snd (pumpAndMix32_of cls cb env frames (v, w)))) = False"
  by (simp_all add: pumpAndMix32_of_def Let_def case_prod_beta call_preSupplyAudio_def soxr_output_def
        midUpdate_src midUpdate_flags apply_requests_frame)

lemma pumpFlt_src:
  "m_src (fst (snd (pumpAndMixFlt_of cls cb env frames (v, w)))) =
     m_src (fst (midUpdate env
        (fst (apply_requests (preSupplyAudio cb (cb_history w) (frames, m_sampleRateOut v)) (v, w)), w))) @
     [Soxr_output frames]"
  "m_resetSampleRate (fst (snd (pumpAndMixFlt_of cls cb env frames (v, w)))) = False"
  "m_setPitchRatio (fst (snd (pumpAndMixFlt_of cls cb env frames (v, w)))) = False"
  by (simp_all add: pumpAndMixFlt_of_def Let_def case_prod_beta call_preSupplyAudio_def soxr_output_def
        midUpdate_src midUpdate_flags apply_requests_frame)

lemma pumpAndMix_cases:
  "pumpAndMix Fmt16 cb env frames (v, w) = pumpAndMix16_of (voice_class v) cb env frames (v, w)"
  "pumpAndMix Fmt32 cb env frames (v, w) = pumpAndMix32_of (voice_class v) cb env frames (v, w)"
  "pumpAndMix FmtFlt cb env frames (v, w) = pumpAndMixFlt_of (voice_class v) cb env frames (v, w)"
  by (cases "voice_class v";
      simp add: pumpAndMix_def AudioVoiceMono_pumpAndMix16_def AudioVoiceStereo_pumpAndMix16_def
        AudioVoiceMono_pumpAndMix32_def AudioVoiceStereo_pumpAndMix32_def
        AudioVoiceMono_pumpAndMixFlt_def AudioVoiceStereo_pumpAndMixFlt_def)+

lemma pumpAndMix_src:
  "m_src (fst (snd (pumpAndMix fmt cb env frames (v, w)))) =
     m_src (fst (midUpdate env
        (fst (apply_requests (preSupplyAudio cb (cb_history w) (frames, m_sampleRateOut v)) (v, w)), w))) @
     [Soxr_output frames]"
  "m_resetSampleRate (fst (snd (pumpAndMix fmt cb env frames (v, w)))) = False"
  "m_setPitchRatio (fst (snd (pumpAndMix fmt cb env frames (v, w)))) = False"
  by (cases fmt; simp add: pumpAndMix_cases pump16_src pump32_src pumpFlt_src)+

text \<open>
  C10. In a voice whose dynamic-rate flag is false, \<open>_setPitchRatio\<close> makes no call to
  the resampler, whatever the ratio and the slew argument: the voice it returns is the
  same voice with \<open>m_setPitchRatio\<close> cleared, and nothing outside the voice changes.
\<close>

theorem setPitchRatio_without_dynamic_rate:
  assumes "\<not> m_dynamicRate v"
  shows "internal_setPitchRatio env (v, w) ratio slew = (v\<lparr>m_setPitchRatio := False\<rparr>, w)
       \<and> m_src (fst (internal_setPitchRatio env (v, w) ratio slew)) = m_src v"
  using assms by (simp add: internal_setPitchRatio_def)

theorem setPitchRatio_without_dynamic_rate_witness:
  "\<not> m_dynamicRate (example_voice\<lparr>m_dynamicRate := False, m_setPitchRatio := True\<rparr>)
   \<and> internal_setPitchRatio example_soxr
        (example_voice\<lparr>m_dynamicRate := False, m_setPitchRatio := True\<rparr>, example_world) 3 True =
      (example_voice\<lparr>m_dynamicRate := False\<rparr>, example_world)"
  using setPitchRatio_without_dynamic_rate
    [where v = "example_voice\<lparr>m_dynamicRate := False, m_setPitchRatio := True\<rparr>"
       and env = example_soxr and w = example_world and ratio = 3 and slew = True]
  by (simp add: example_voice_def)

text \<open>
  C1. \<open>setPitchRatio\<close> and \<open>resetSampleRate\<close> change nothing in the voice but the
  flag and the values they latch; the resampler's call sequence \<open>m_src\<close> is as it was.
  A pump of either class in any of the three formats then extends \<open>m_src\<close> by: the
  calls of the sample-rate reset, if one is latched (delete, create at the latched input
  rate, and, when the create succeeds, the input function); after them the pitch-ratio
  call, if the voice is dynamic-rate and a ratio is latched or the reset has just
  succeeded; and last \<open>soxr_output\<close>. Both flags are clear after the pump. The latched
  state is that of the voice after the requests the client makes in \<open>preSupplyAudio\<close>,
  which is the voice itself when the client makes none.
\<close>

theorem deferred_changes_applied_in_order:
  "setPitchRatio v ratio slew = v\<lparr>m_setPitchRatio := True, m_pitchRatio := ratio, m_slew := slew\<rparr>
   \<and> m_src (setPitchRatio v ratio slew) = m_src v
   \<and> resetSampleRate v rate = v\<lparr>m_resetSampleRate := True, m_deferredSampleRate := rate\<rparr>
   \<and> m_src (resetSampleRate v rate) = m_src v
   \<and> (let q = fst (apply_requests (preSupplyAudio cb (cb_history w) (frames, m_sampleRateOut v)) (v, w));
           v' = fst (snd (pumpAndMix fmt cb env frames (v, w)))
       in m_src v' =
            m_src v @
            (if m_resetSampleRate q
             then [Soxr_delete,
                   Soxr_create (m_deferredSampleRate q) (m_mixInfo_sampleRate w)
                     (channels (voice_class v)) (m_mixInfo_sampleFormat w) (m_dynamicRate v)] @
                  (if create_fails env then [] else [Soxr_set_input_fn])
             else []) @
            (if m_dynamicRate v \<and> (m_setPitchRatio q \<or> (m_resetSampleRate q \<and> \<not> create_fails env))
             then [if m_resetSampleRate q \<and> \<not> create_fails env
                   then Soxr_set_io_ratio (m_pitchRatio q) (m_deferredSampleRate q)
                          (m_mixInfo_sampleRate w) 0
                   else Soxr_set_io_ratio (m_pitchRatio q) (m_sampleRateIn v) (m_sampleRateOut v)
                          (if m_slew q then m_5msFrames w else 0)]
             else []) @
            [Soxr_output frames]
          \<and> m_resetSampleRate v' = False \<and> m_setPitchRatio v' = False)"
  by (simp add: setPitchRatio_def resetSampleRate_def Let_def pumpAndMix_src midUpdate_src
        apply_requests_frame)

theorem deferred_changes_applied_in_order_witness:
  "m_src (fst (snd (pumpAndMix Fmt16 example_client example_soxr 3
       (setPitchRatio (resetSampleRate example_voice 44100) 2 True, example_world)))) =
     [Soxr_delete, Soxr_create 44100 48000 1 SOXR_INT16_I True, Soxr_set_input_fn,
      Soxr_set_io_ratio 2 44100 48000 0, Soxr_output 3]
   \<and> m_src (fst (snd (pumpAndMix FmtFlt example_client (example_soxr\<lparr>create_fails := True\<rparr>) 3
       (setPitchRatio (resetSampleRate (example_voice\<lparr>voice_class := Stereo\<rparr>) 44100) 2 True,
        example_world)))) =
     [Soxr_delete, Soxr_create 44100 48000 2 SOXR_INT16_I True,
      Soxr_set_io_ratio 2 32000 48000 240, Soxr_output 3]"
  using deferred_changes_applied_in_order
    [where v = "setPitchRatio (resetSampleRate example_voice 44100) 2 True"
       and cb = example_client and env = example_soxr and w = example_world
       and frames = 3 and fmt = Fmt16]
    deferred_changes_applied_in_order
    [where v = "setPitchRatio (resetSampleRate (example_voice\<lparr>voice_class := Stereo\<rparr>) 44100) 2 True"
       and cb = example_client and env = "example_soxr\<lparr>create_fails := True\<rparr>" and w = example_world
       and frames = 3 and fmt = FmtFlt]
  by (simp add: Let_def example_voice_def example_world_def example_client_def example_soxr_def
        setPitchRatio_def resetSampleRate_def)

section \<open>The resampler's input callback: proofs\<close>

lemma length_resize [simp]: "length (resize xs n) = n"
  by (simp add: resize_def)

lemma length_poke [simp]: "length (poke buf block) = length buf"
  by (simp add: poke_def)

lemma length_memset16_zero [simp]: "length (memset16_zero xs bytes) = length xs"
  by (simp add: memset16_zero_def)

lemma take_memset16_zero:
  "bytes div 2 = n \<Longrightarrow> n \<le> length xs \<Longrightarrow> take n (memset16_zero xs bytes) = replicate n 0"
  by (simp add: memset16_zero_def)

lemma SRCCallback_silent:
  assumes "m_silentOut ctx" and "frames * channels (voice_class ctx) * 2 < 2 ^ 64"
  shows "fst (SRCCallback cb ctx w frames) = frames"
    and "take (frames * channels (voice_class ctx)) (m_scratchIn (snd (SRCCallback cb ctx w frames))) =
           replicate (frames * channels (voice_class ctx)) 0"
    and "cb_history (snd (SRCCallback cb ctx w frames)) = cb_history w"
    and "SRCCallback cb' ctx w frames = SRCCallback cb ctx w frames"
proof -
  show "fst (SRCCallback cb ctx w frames) = frames"
    using assms(1)
    by (cases "voice_class ctx")
       (simp_all add: SRCCallback_def AudioVoiceMono_SRCCallback_def AudioVoiceStereo_SRCCallback_def Let_def)
  show "cb_history (snd (SRCCallback cb ctx w frames)) = cb_history w"
    using assms(1)
    by (cases "voice_class ctx")
       (simp_all add: SRCCallback_def AudioVoiceMono_SRCCallback_def AudioVoiceStereo_SRCCallback_def Let_def)
  show "SRCCallback cb' ctx w frames = SRCCallback cb ctx w frames"
    using assms(1)
    by (cases "voice_class ctx")
       (simp_all add: SRCCallback_def AudioVoiceMono_SRCCallback_def AudioVoiceStereo_SRCCallback_def Let_def)
  show "take (frames * channels (voice_class ctx)) (m_scratchIn (snd (SRCCallback cb ctx w frames))) =
           replicate (frames * channels (voice_class ctx)) 0"
  proof (cases "voice_class ctx")
    case Mono
    with assms(2) have b: "size_t_mul frames 2 = 2 * frames"
      by (simp add: size_t_mul_def)
    have "take frames (memset16_zero xs (2 * frames)) = replicate frames 0"
      if "frames \<le> length xs" for xs :: "16 word list"
      using that by (intro take_memset16_zero) simp_all
    then show ?thesis
      using assms(1) Mono
      by (simp add: SRCCallback_def AudioVoiceMono_SRCCallback_def Let_def b)
  next
    case Stereo
    with assms(2) have b: "size_t_mul frames 2 = frames * 2" "size_t_mul (frames * 2) 2 = 2 * (frames * 2)"
      by (simp_all add: size_t_mul_def)
    have "take (frames * 2) (memset16_zero xs (2 * (frames * 2))) = replicate (frames * 2) 0"
      if "frames * 2 \<le> length xs" for xs :: "16 word list"
      using that by (intro take_memset16_zero) simp_all
    then show ?thesis
      using assms(1) Stereo
      by (simp add: SRCCallback_def AudioVoiceStereo_SRCCallback_def Let_def b)
  qed
qed

lemma SRCCallback_supplied:
  assumes "\<not> m_silentOut ctx"
  shows "fst (SRCCallback cb ctx w frames) = snd (supplyAudio cb (cb_history w) frames)"
    and "cb_history (snd (SRCCallback cb ctx w frames)) = cb_history w @ [Ev_supplyAudio frames]"
  using assms
  by (cases "voice_class ctx";
      simp add: SRCCallback_def AudioVoiceMono_SRCCallback_def AudioVoiceStereo_SRCCallback_def Let_def
        case_prod_beta)+

text \<open>
  C2. For a voice of either class and a frame count whose bytes (frames times channels
  times two) fit \<open>size_t\<close>: when \<open>m_silentOut\<close> is set, the input callback returns
  the frame count it was asked for, the first frames-times-channels samples of
  \<open>m_scratchIn\<close> are zero afterwards, the client is not called (its call history is as
  it was, and the outcome is the same for any client); when \<open>m_silentOut\<close> is clear it
  calls \<open>supplyAudio\<close> once and returns what that returned.
\<close>

theorem SRCCallback_silence_or_supply:
  assumes "frames * channels (voice_class ctx) * 2 < 2 ^ 64"
  shows "if m_silentOut ctx
         then fst (SRCCallback cb ctx w frames) = frames
            \<and> take (frames * channels (voice_class ctx))
                 (m_scratchIn (snd (SRCCallback cb ctx w frames))) =
                replicate (frames * channels (voice_class ctx)) 0
            \<and> cb_history (snd (SRCCallback cb ctx w frames)) = cb_history w
            \<and> SRCCallback cb' ctx w frames = SRCCallback cb ctx w frames
         else fst (SRCCallback cb ctx w frames) = snd (supplyAudio cb (cb_history w) frames)
            \<and> cb_history (snd (SRCCallback cb ctx w frames)) = cb_history w @ [Ev_supplyAudio frames]"
proof (cases "m_silentOut ctx")
  case True
  note s = SRCCallback_silent [OF True assms]
  from s(1) [of cb w] s(2) [of cb w] s(3) [of cb w] s(4) [of cb' w cb] True show ?thesis by simp
next
  case False
  note s = SRCCallback_supplied [OF False]
  from s(1) [of cb w frames] s(2) [of cb w frames] False show ?thesis by simp
qed

theorem SRCCallback_silence_or_supply_witness:
  "SRCCallback example_client (example_voice\<lparr>voice_class := Stereo, m_silentOut := True\<rparr>)
       (example_world\<lparr>m_scratchIn := [5, 5, 5, 5, 5, 5]\<rparr>) 2 =
     (2, example_world\<lparr>m_scratchIn := [0, 0, 0, 0, 5, 5]\<rparr>)
   \<and> SRCCallback example_client example_voice (example_world\<lparr>m_scratchIn := [5, 5]\<rparr>) 3 =
     (3, example_world\<lparr>m_scratchIn := [1, 2, 3], cb_history := [Ev_supplyAudio 3]\<rparr>)"
proof -
  have a: "(2::nat) * channels (voice_class (example_voice\<lparr>voice_class := Stereo, m_silentOut := True\<rparr>)) * 2
             < 2 ^ 64"
    by simp
  have b: "(3::nat) * channels (voice_class example_voice) * 2 < 2 ^ 64"
    by (simp add: example_voice_def)
  have r: "replicate 4 (0::16 word) = [0, 0, 0, 0]"
    by (simp add: numeral_eq_Suc)
  have s: "SRCCallback example_client (example_voice\<lparr>voice_class := Stereo, m_silentOut := True\<rparr>)
       (example_world\<lparr>m_scratchIn := [5, 5, 5, 5, 5, 5]\<rparr>) 2 =
     (2, example_world\<lparr>m_scratchIn := [0, 0, 0, 0, 5, 5]\<rparr>)"
    by (simp add: SRCCallback_def AudioVoiceStereo_SRCCallback_def Let_def example_voice_def
          size_t_mul_def memset16_zero_def r)
  have t: "SRCCallback example_client example_voice (example_world\<lparr>m_scratchIn := [5, 5]\<rparr>) 3 =
     (3, example_world\<lparr>m_scratchIn := [1, 2, 3], cb_history := [Ev_supplyAudio 3]\<rparr>)"
    by (simp add: SRCCallback_def AudioVoiceMono_SRCCallback_def Let_def example_voice_def
          example_client_def example_world_def resize_def poke_def)
  show ?thesis
    using s t
      SRCCallback_silence_or_supply [OF a, where cb = example_client and cb' = example_client
        and w = "example_world\<lparr>m_scratchIn := [5, 5, 5, 5, 5, 5]\<rparr>"]
      SRCCallback_silence_or_supply [OF b, where cb = example_client and cb' = example_client
        and w = "example_world\<lparr>m_scratchIn := [5, 5]\<rparr>"]
    by simp
qed

section \<open>Pump and mix: proofs\<close>

lemma midUpdate_voice_frame:
  "m_sendMatrices (fst (midUpdate env (v, w))) = m_sendMatrices v"
  "voice_class (fst (midUpdate env (v, w))) = voice_class v"
  "m_silentOut (fst (midUpdate env (v, w))) = m_silentOut v"
  by (cases "voice_class v";
      simp add: midUpdate_def AudioVoiceMono_resetSampleRate_def AudioVoiceStereo_resetSampleRate_def
        internal_resetSampleRate_def internal_setPitchRatio_def Let_def split: prod.splits)+

lemma midUpdate_world_frame:
  "m_scratchIn (snd (midUpdate env (v, w))) = m_scratchIn w"
  "m_scratch16Pre (snd (midUpdate env (v, w))) = m_scratch16Pre w"
  "m_scratch16Post (snd (midUpdate env (v, w))) = m_scratch16Post w"
  "m_scratch32Pre (snd (midUpdate env (v, w))) = m_scratch32Pre w"
  "m_scratch32Post (snd (midUpdate env (v, w))) = m_scratch32Post w"
  "m_scratchFltPre (snd (midUpdate env (v, w))) = m_scratchFltPre w"
  "m_scratchFltPost (snd (midUpdate env (v, w))) = m_scratchFltPost w"
  "m_5msFrames (snd (midUpdate env (v, w))) = m_5msFrames w"
  "m_mixInfo_sampleRate (snd (midUpdate env (v, w))) = m_mixInfo_sampleRate w"
  "m_mixInfo_sampleFormat (snd (midUpdate env (v, w))) = m_mixInfo_sampleFormat w"
  "m_mainSubmix (snd (midUpdate env (v, w))) = m_mainSubmix w"
  "m_busId (snd (midUpdate env (v, w))) = m_busId w"
  "mergeBuf16 (snd (midUpdate env (v, w))) = mergeBuf16 w"
  "mergeBuf32 (snd (midUpdate env (v, w))) = mergeBuf32 w"
  "mergeBufFlt (snd (midUpdate env (v, w))) = mergeBufFlt w"
  "DefaultMonoMtx (snd (midUpdate env (v, w))) = DefaultMonoMtx w"
  "DefaultStereoMtx (snd (midUpdate env (v, w))) = DefaultStereoMtx w"
  "cb_history (snd (midUpdate env (v, w))) = cb_history w"
  by (cases "voice_class v";
      simp add: midUpdate_def AudioVoiceMono_resetSampleRate_def AudioVoiceStereo_resetSampleRate_def
        internal_resetSampleRate_def internal_setPitchRatio_def Let_def split: prod.splits)+

lemma SRCCallback_world_frame:
  "m_scratch16Pre (snd (SRCCallback cb v w r)) = m_scratch16Pre w"
  "m_scratch16Post (snd (SRCCallback cb v w r)) = m_scratch16Post w"
  "m_scratch32Pre (snd (SRCCallback cb v w r)) = m_scratch32Pre w"
  "m_scratch32Post (snd (SRCCallback cb v w r)) = m_scratch32Post w"
  "m_scratchFltPre (snd (SRCCallback cb v w r)) = m_scratchFltPre w"
  "m_scratchFltPost (snd (SRCCallback cb v w r)) = m_scratchFltPost w"
  "m_5msFrames (snd (SRCCallback cb v w r)) = m_5msFrames w"
  "m_mixInfo_sampleRate (snd (SRCCallback cb v w r)) = m_mixInfo_sampleRate w"
  "m_mixInfo_sampleFormat (snd (SRCCallback cb v w r)) = m_mixInfo_sampleFormat w"
  "m_mainSubmix (snd (SRCCallback cb v w r)) = m_mainSubmix w"
  "m_busId (snd (SRCCallback cb v w r)) = m_busId w"
  "mergeBuf16 (snd (SRCCallback cb v w r)) = mergeBuf16 w"
  "mergeBuf32 (snd (SRCCallback cb v w r)) = mergeBuf32 w"
  "mergeBufFlt (snd (SRCCallback cb v w r)) = mergeBufFlt w"
  "DefaultMonoMtx (snd (SRCCallback cb v w r)) = DefaultMonoMtx w"
  "DefaultStereoMtx (snd (SRCCallback cb v w r)) = DefaultStereoMtx w"
  by (cases "voice_class v";
      simp add: SRCCallback_def AudioVoiceMono_SRCCallback_def AudioVoiceStereo_SRCCallback_def
        Let_def case_prod_beta)+

lemma SRC_callbacks_world_frame:
  "m_scratch16Pre (SRC_callbacks cb v rs w) = m_scratch16Pre w"
  "m_scratch16Post (SRC_callbacks cb v rs w) = m_scratch16Post w"
  "m_scratch32Pre (SRC_callbacks cb v rs w) = m_scratch32Pre w"
  "m_scratch32Post (SRC_callbacks cb v rs w) = m_scratch32Post w"
  "m_scratchFltPre (SRC_callbacks cb v rs w) = m_scratchFltPre w"
  "m_scratchFltPost (SRC_callbacks cb v rs w) = m_scratchFltPost w"
  "m_5msFrames (SRC_callbacks cb v rs w) = m_5msFrames w"
  "m_mixInfo_sampleRate (SRC_callbacks cb v rs w) = m_mixInfo_sampleRate w"
  "m_mixInfo_sampleFormat (SRC_callbacks cb v rs w) = m_mixInfo_sampleFormat w"
  "m_mainSubmix (SRC_callbacks cb v rs w) = m_mainSubmix w"
  "m_busId (SRC_callbacks cb v rs w) = m_busId w"
  "mergeBuf16 (SRC_callbacks cb v rs w) = mergeBuf16 w"
  "mergeBuf32 (SRC_callbacks cb v rs w) = mergeBuf32 w"
  "mergeBufFlt (SRC_callbacks cb v rs w) = mergeBufFlt w"
  "DefaultMonoMtx (SRC_callbacks cb v rs w) = DefaultMonoMtx w"
  "DefaultStereoMtx (SRC_callbacks cb v rs w) = DefaultStereoMtx w"
  by (induction rs arbitrary: w; simp add: SRCCallback_world_frame)+

lemma pump_of_oDone:
  "fst (pumpAndMix16_of cls cb env frames (v, w)) = min frames (output_done env)"
  "fst (pumpAndMix32_of cls cb env frames (v, w)) = min frames (output_done env)"
  "fst (pumpAndMixFlt_of cls cb env frames (v, w)) = min frames (output_done env)"
  by (simp_all add: pumpAndMix16_of_def pumpAndMix32_of_def pumpAndMixFlt_of_def
        Let_def case_prod_beta soxr_output_def)

lemma pumpAndMix_oDone:
  "fst (pumpAndMix fmt cb env frames (v, w)) = min frames (output_done env)"
  by (cases fmt;
      simp add: pumpAndMix_cases pumpAndMix16_of_def pumpAndMix32_of_def pumpAndMixFlt_of_def
        Let_def case_prod_beta soxr_output_def)










section \<open>Scratch vectors: proofs\<close>

lemma SRCCallback_size:
  "length (m_scratchIn (snd (SRCCallback cb v w r))) =
     max (length (m_scratchIn w)) (sample_count (voice_class v) r)"
  by (cases "voice_class v";
      simp add: SRCCallback_def AudioVoiceMono_SRCCallback_def AudioVoiceStereo_SRCCallback_def
        Let_def case_prod_beta)

lemma SRC_callbacks_size:
  "length (m_scratchIn (SRC_callbacks cb v rs w)) =
     fold (\<lambda>r n. max n (sample_count (voice_class v) r)) rs (length (m_scratchIn w))"
  by (induction rs arbitrary: w) (simp_all add: SRCCallback_size)

lemma route_and_mix_length:
  "length (fst (route_and_mix route cls dt oDone busId pre sends (post, merge, hist))) = length post"
  by (induction sends arbitrary: post merge hist) (auto simp: Let_def)

lemma pump16_sizes:
  "length (m_scratch16Pre (snd (snd (pumpAndMix16_of cls cb env frames (v, w))))) =
     max (length (m_scratch16Pre w)) (sample_count cls frames)"
  "length (m_scratch16Post (snd (snd (pumpAndMix16_of cls cb env frames (v, w))))) =
     max (length (m_scratch16Post w)) (sample_count cls frames)"
  "length (m_scratchIn (snd (snd (pumpAndMix16_of cls cb env frames (v, w))))) =
     fold (\<lambda>r n. max n (sample_count (voice_class v) r)) (input_requests env) (length (m_scratchIn w))"
  "m_scratch32Pre (snd (snd (pumpAndMix16_of cls cb env frames (v, w)))) = m_scratch32Pre w"
  "m_scratch32Post (snd (snd (pumpAndMix16_of cls cb env frames (v, w)))) = m_scratch32Post w"
  "m_scratchFltPre (snd (snd (pumpAndMix16_of cls cb env frames (v, w)))) = m_scratchFltPre w"
  "m_scratchFltPost (snd (snd (pumpAndMix16_of cls cb env frames (v, w)))) = m_scratchFltPost w"
  by (simp_all add: pumpAndMix16_of_def Let_def case_prod_beta call_preSupplyAudio_def soxr_output_def
        midUpdate_voice_frame midUpdate_world_frame SRC_callbacks_world_frame apply_requests_frame
        SRC_callbacks_size route_and_mix_length)

lemma pump32_sizes:
  "length (m_scratch32Pre (snd (snd (pumpAndMix32_of cls cb env frames (v, w))))) =
     max (length (m_scratch32Pre w)) (sample_count cls frames)"
  "length (m_scratch32Post (snd (snd (pumpAndMix32_of cls cb env frames (v, w))))) =
     max (length (m_scratch32Post w)) (sample_count cls frames)"
  "length (m_scratchIn (snd (snd (pumpAndMix32_of cls cb env frames (v, w))))) =
     fold (\<lambda>r n. max n (sample_count (voice_class v) r)) (input_requests env) (length (m_scratchIn w))"
  "m_scratch16Pre (snd (snd (pumpAndMix32_of cls cb env frames (v, w)))) = m_scratch16Pre w"
  "m_scratch16Post (snd (snd (pumpAndMix32_of cls cb env frames (v, w)))) = m_scratch16Post w"
  "m_scratchFltPre (snd (snd (pumpAndMix32_of cls cb env frames (v, w)))) = m_scratchFltPre w"
  "m_scratchFltPost (snd (snd (pumpAndMix32_of cls cb env frames (v, w)))) = m_scratchFltPost w"
  by (simp_all add: pumpAndMix32_of_def Let_def case_prod_beta call_preSupplyAudio_def soxr_output_def
        midUpdate_voice_frame midUpdate_world_frame SRC_callbacks_world_frame apply_requests_frame
        SRC_callbacks_size route_and_mix_length)

lemma pumpFlt_sizes:
  "length (m_scratchFltPre (snd (snd (pumpAndMixFlt_of cls cb env frames (v, w))))) =
     (if length (m_scratchFltPre w) < sample_count cls frames
      then size_t_add (sample_count cls frames) (flt_pad cls) else length (m_scratchFltPre w))"
  "length (m_scratchFltPost (snd (snd (pumpAndMixFlt_of cls cb env frames (v, w))))) =
     (if length (m_scratchFltPost w) < sample_count cls frames
      then size_t_add (sample_count cls frames) (flt_pad cls) else length (m_scratchFltPost w))"
  "length (m_scratchIn (snd (snd (pumpAndMixFlt_of cls cb env frames (v, w))))) =
     fold (\<lambda>r n. max n (sample_count (voice_class v) r)) (input_requests env) (length (m_scratchIn w))"
  "m_scratch16Pre (snd (snd (pumpAndMixFlt_of cls cb env frames (v, w)))) = m_scratch16Pre w"
  "m_scratch16Post (snd (snd (pumpAndMixFlt_of cls cb env frames (v, w)))) = m_scratch16Post w"
  "m_scratch32Pre (snd (snd (pumpAndMixFlt_of cls cb env frames (v, w)))) = m_scratch32Pre w"
  "m_scratch32Post (snd (snd (pumpAndMixFlt_of cls cb env frames (v, w)))) = m_scratch32Post w"
  by (simp_all add: pumpAndMixFlt_of_def Let_def case_prod_beta call_preSupplyAudio_def soxr_output_def
        midUpdate_voice_frame midUpdate_world_frame SRC_callbacks_world_frame apply_requests_frame
        SRC_callbacks_size route_and_mix_length)

lemma sample_count_in_range:
  "in_range frames \<Longrightarrow> sample_count cls frames = frames * channels cls"
  by (cases cls) (simp_all add: in_range_def size_t_mul_def)

lemma padded_in_range:
  "in_range frames \<Longrightarrow> size_t_add (frames * channels cls) (flt_pad cls) = frames * channels cls + flt_pad cls"
  by (cases cls) (simp_all add: in_range_def size_t_add_def)

lemma fold_requests_in_range:
  "list_all in_range rs \<Longrightarrow>
   fold (\<lambda>r n. max n (sample_count cls r)) rs n0 = fold (\<lambda>r n. max n (r * channels cls)) rs n0"
  by (induction rs arbitrary: n0) (simp_all add: sample_count_in_range)

lemma fold_max_ge: "(n0::nat) \<le> fold (\<lambda>r n. max n (g r)) rs n0"
proof (induction rs arbitrary: n0)
  case Nil
  show ?case by simp
next
  case (Cons r rs)
  have "n0 \<le> max n0 (g r)" by simp
  also have "\<dots> \<le> fold (\<lambda>r n. max n (g r)) rs (max n0 (g r))" by (rule Cons.IH)
  finally show ?case by simp
qed

lemma fold_max_covers: "r \<in> set rs \<Longrightarrow> g r \<le> fold (\<lambda>r n. max n (g r)) rs (n0::nat)"
proof (induction rs arbitrary: n0)
  case Nil
  then show ?case by simp
next
  case (Cons a rs)
  show ?case
  proof (cases "r = a")
    case True
    have "g a \<le> max n0 (g a)" by simp
    also have "\<dots> \<le> fold (\<lambda>r n. max n (g r)) rs (max n0 (g a))" by (rule fold_max_ge)
    finally show ?thesis using True by simp
  next
    case False
    with Cons.prems have "r \<in> set rs" by simp
    then show ?thesis using Cons.IH by simp
  qed
qed

lemma fold_max_unchanged:
  "(\<forall>r\<in>set rs. g r \<le> n0) \<Longrightarrow> fold (\<lambda>r n. max n (g r)) rs (n0::nat) = n0"
  by (induction rs) (simp_all add: max_absorb1)

lemma pump_sizes_in_range:
  assumes "in_range frames" and "list_all in_range (input_requests env)"
  shows "scratch_size ScratchIn (run_call (Pump fmt cb env v frames) w) =
           fold (\<lambda>r n. max n (r * channels (voice_class v))) (input_requests env) (scratch_size ScratchIn w)"
    and "scratch_size (pre_vector fmt) (run_call (Pump fmt cb env v frames) w) =
           (if fmt = FmtFlt
            then (if scratch_size (pre_vector fmt) w < frames * channels (voice_class v)
                  then frames * channels (voice_class v) + flt_pad (voice_class v)
                  else scratch_size (pre_vector fmt) w)
            else max (scratch_size (pre_vector fmt) w) (frames * channels (voice_class v)))"
    and "scratch_size (post_vector fmt) (run_call (Pump fmt cb env v frames) w) =
           (if fmt = FmtFlt
            then (if scratch_size (post_vector fmt) w < frames * channels (voice_class v)
                  then frames * channels (voice_class v) + flt_pad (voice_class v)
                  else scratch_size (post_vector fmt) w)
            else max (scratch_size (post_vector fmt) w) (frames * channels (voice_class v)))"
    and "vec \<noteq> ScratchIn \<Longrightarrow> vec \<noteq> pre_vector fmt \<Longrightarrow> vec \<noteq> post_vector fmt \<Longrightarrow>
         scratch_size vec (run_call (Pump fmt cb env v frames) w) = scratch_size vec w"
proof -
  note sz = pump16_sizes pump32_sizes pumpFlt_sizes
  show "scratch_size ScratchIn (run_call (Pump fmt cb env v frames) w) =
           fold (\<lambda>r n. max n (r * channels (voice_class v))) (input_requests env) (scratch_size ScratchIn w)"
    using assms(2) by (cases fmt) (simp_all add: pumpAndMix_cases sz fold_requests_in_range)
  show "scratch_size (pre_vector fmt) (run_call (Pump fmt cb env v frames) w) =
           (if fmt = FmtFlt
            then (if scratch_size (pre_vector fmt) w < frames * channels (voice_class v)
                  then frames * channels (voice_class v) + flt_pad (voice_class v)
                  else scratch_size (pre_vector fmt) w)
            else max (scratch_size (pre_vector fmt) w) (frames * channels (voice_class v)))"
    using assms(1)
    by (cases fmt) (simp_all add: pumpAndMix_cases sz sample_count_in_range padded_in_range)
  show "scratch_size (post_vector fmt) (run_call (Pump fmt cb env v frames) w) =
           (if fmt = FmtFlt
            then (if scratch_size (post_vector fmt) w < frames * channels (voice_class v)
                  then frames * channels (voice_class v) + flt_pad (voice_class v)
                  else scratch_size (post_vector fmt) w)
            else max (scratch_size (post_vector fmt) w) (frames * channels (voice_class v)))"
    using assms(1)
    by (cases fmt) (simp_all add: pumpAndMix_cases sz sample_count_in_range padded_in_range)
  show "scratch_size vec (run_call (Pump fmt cb env v frames) w) = scratch_size vec w"
    if "vec \<noteq> ScratchIn" "vec \<noteq> pre_vector fmt" "vec \<noteq> post_vector fmt"
    using that by (cases fmt; cases vec) (simp_all add: pumpAndMix_cases sz)
qed


lemma vector_distinct:
  "pre_vector fmt \<noteq> ScratchIn" "post_vector fmt \<noteq> ScratchIn" "pre_vector fmt \<noteq> post_vector fmt"
  "ScratchIn \<noteq> pre_vector fmt" "ScratchIn \<noteq> post_vector fmt" "post_vector fmt \<noteq> pre_vector fmt"
  by (cases fmt; simp)+

lemma run_call_step:
  assumes "list_all in_range (frame_counts c)"
  shows "scratch_size vec w \<le> scratch_size vec (run_call c w)"
    and "(vec, n) \<in> set (demands c) \<Longrightarrow> n \<le> scratch_size vec (run_call c w)"
    and "(\<forall>n. (vec, n) \<in> set (demands c) \<longrightarrow> n \<le> scratch_size vec w) \<Longrightarrow>
         scratch_size vec (run_call c w) = scratch_size vec w"
proof -
  have all: "scratch_size vec w \<le> scratch_size vec (run_call c w)
      \<and> ((vec, n) \<in> set (demands c) \<longrightarrow> n \<le> scratch_size vec (run_call c w))
      \<and> ((\<forall>n. (vec, n) \<in> set (demands c) \<longrightarrow> n \<le> scratch_size vec w) \<longrightarrow>
           scratch_size vec (run_call c w) = scratch_size vec w)"
  proof (cases c)
    case (Pump fmt cb env v frames)
    with assms have ir: "in_range frames" "list_all in_range (input_requests env)"
      by simp_all
    note sz = pump_sizes_in_range [OF ir, where fmt = fmt and cb = cb and v = v and w = w]
    let ?ch = "channels (voice_class v)"
    consider (inp) "vec = ScratchIn" | (pre) "vec = pre_vector fmt" | (post) "vec = post_vector fmt"
      | (other) "vec \<noteq> ScratchIn" "vec \<noteq> pre_vector fmt" "vec \<noteq> post_vector fmt"
      by blast
    then show ?thesis
    proof cases
      case inp
      have d: "((vec, n) \<in> set (demands c)) = (n \<in> (\<lambda>r. r * ?ch) ` set (input_requests env))" for n
        using inp Pump by (auto simp: vector_distinct)
      have 1: "scratch_size vec w \<le> scratch_size vec (run_call c w)"
        using inp Pump sz(1) by (simp add: fold_max_ge)
      have 2: "(vec, n) \<in> set (demands c) \<Longrightarrow> n \<le> scratch_size vec (run_call c w)"
        using inp Pump sz(1) fold_max_covers [where g = "\<lambda>r. r * ?ch" and rs = "input_requests env"]
        by (auto simp: vector_distinct)
      have 3: "\<forall>n. (vec, n) \<in> set (demands c) \<longrightarrow> n \<le> scratch_size vec w \<Longrightarrow>
           scratch_size vec (run_call c w) = scratch_size vec w"
      proof -
        assume h: "\<forall>n. (vec, n) \<in> set (demands c) \<longrightarrow> n \<le> scratch_size vec w"
        have "\<forall>r\<in>set (input_requests env). r * ?ch \<le> scratch_size vec w"
        proof
          fix r
          assume "r \<in> set (input_requests env)"
          then have "(vec, r * ?ch) \<in> set (demands c)"
            using inp Pump by auto
          with h show "r * ?ch \<le> scratch_size vec w" by blast
        qed
        then have "fold (\<lambda>r n. max n (r * ?ch)) (input_requests env) (scratch_size vec w) =
            scratch_size vec w"
          by (rule fold_max_unchanged)
        then show ?thesis
          using inp Pump sz(1) by simp
      qed
      from 1 2 3 show ?thesis by blast
    next
      case pre
      have d: "((vec, n) \<in> set (demands c)) = (n = frames * ?ch)" for n
        using pre Pump by (auto simp: vector_distinct)
      show ?thesis
        using pre Pump sz(2) by (auto simp: vector_distinct)
    next
      case post
      have d: "((vec, n) \<in> set (demands c)) = (n = frames * ?ch)" for n
        using post Pump by (auto simp: vector_distinct)
      show ?thesis
        using post Pump sz(3) by (auto simp: vector_distinct)
    next
      case other
      have d: "(vec, n) \<notin> set (demands c)" for n
        using other Pump by auto
      have e: "scratch_size vec (run_call c w) = scratch_size vec w"
        using other Pump sz(4) by simp
      show ?thesis
        using d by (simp add: e)
    qed
  next
    case (Input cb v frames)
    with assms have ir: "in_range frames" by simp
    show ?thesis
    proof (cases "vec = ScratchIn")
      case True
      then show ?thesis
        using Input ir by (auto simp: SRCCallback_size sample_count_in_range)
    next
      case False
      then show ?thesis
        using Input by (cases vec) (simp_all add: SRCCallback_world_frame)
    qed
  qed
  from all show "scratch_size vec w \<le> scratch_size vec (run_call c w)" by blast
  from all show "(vec, n) \<in> set (demands c) \<Longrightarrow> n \<le> scratch_size vec (run_call c w)" by blast
  from all show "(\<forall>n. (vec, n) \<in> set (demands c) \<longrightarrow> n \<le> scratch_size vec w) \<Longrightarrow>
         scratch_size vec (run_call c w) = scratch_size vec w" by blast
qed

lemma fold_max_le_iff: "(fold max xs (a::nat) \<le> b) = (a \<le> b \<and> (\<forall>x\<in>set xs. x \<le> b))"
  by (induction xs arbitrary: a) auto

lemma max_demand_le_iff:
  "(max_demand vec cs \<le> b) = (\<forall>c\<in>set cs. \<forall>n. (vec, n) \<in> set (demands c) \<longrightarrow> n \<le> b)"
  by (auto simp: max_demand_def fold_max_le_iff)

text \<open>
  C6. A sequence of pumps and input callbacks runs, every frame count in range. For each
  scratch vector: its size at the end is at least the largest demand any call of the
  sequence made on it (frame count times the channel count of the call's voice); its size
  at the end is at least its size at the start; and if its size at the start already met
  every demand, its size at the end is its size at the start. For a sequence of one call
  the last two say that the call never shrinks a vector and grows it only when its size
  is below what the call demands.
\<close>

theorem scratch_vectors_cover_max_demand:
  assumes "calls_in_range cs"
  shows "max_demand vec cs \<le> scratch_size vec (run_calls cs w)
       \<and> scratch_size vec w \<le> scratch_size vec (run_calls cs w)
       \<and> (max_demand vec cs \<le> scratch_size vec w \<longrightarrow>
            scratch_size vec (run_calls cs w) = scratch_size vec w)"
  using assms
proof (induction cs arbitrary: w)
  case Nil
  show ?case by (simp add: max_demand_def)
next
  case (Cons c cs)
  from Cons.prems have rc: "list_all in_range (frame_counts c)" and rcs: "calls_in_range cs"
    by (simp_all add: calls_in_range_def)
  let ?w1 = "run_call c w"
  let ?fin = "run_calls cs ?w1"
  note step = run_call_step [OF rc, where vec = vec and w = w]
  from Cons.IH [OF rcs, of ?w1]
  have ih1: "max_demand vec cs \<le> scratch_size vec ?fin"
    and ih2: "scratch_size vec ?w1 \<le> scratch_size vec ?fin"
    and ih3: "max_demand vec cs \<le> scratch_size vec ?w1 \<Longrightarrow>
              scratch_size vec ?fin = scratch_size vec ?w1"
    by blast+
  have mono: "scratch_size vec w \<le> scratch_size vec ?fin"
    using step(1) ih2 by (rule le_trans)
  have cover: "max_demand vec (c # cs) \<le> scratch_size vec ?fin"
    unfolding max_demand_le_iff
  proof (intro ballI allI impI)
    fix c' n
    assume c': "c' \<in> set (c # cs)" and n: "(vec, n) \<in> set (demands c')"
    show "n \<le> scratch_size vec ?fin"
    proof (cases "c' = c")
      case True
      with n have "n \<le> scratch_size vec ?w1" by (simp add: step(2))
      with ih2 show ?thesis by simp
    next
      case False
      with c' have "c' \<in> set cs" by simp
      with n ih1 show ?thesis unfolding max_demand_le_iff by blast
    qed
  qed
  have same: "scratch_size vec ?fin = scratch_size vec w"
    if m: "max_demand vec (c # cs) \<le> scratch_size vec w"
  proof -
    from m have a: "\<forall>n. (vec, n) \<in> set (demands c) \<longrightarrow> n \<le> scratch_size vec w"
      and b: "max_demand vec cs \<le> scratch_size vec w"
      unfolding max_demand_le_iff by simp_all
    from a have e: "scratch_size vec ?w1 = scratch_size vec w" by (rule step(3))
    with b have "max_demand vec cs \<le> scratch_size vec ?w1" by simp
    then have "scratch_size vec ?fin = scratch_size vec ?w1" by (rule ih3)
    with e show ?thesis by simp
  qed
  from cover mono same show ?case by simp
qed

section \<open>The concrete voice and engine: evaluation\<close>


lemma example_voice_sel:
  "voice_class example_voice = Mono"
  "m_dynamicRate example_voice = True"
  "m_src example_voice = []"
  "m_sampleRateIn example_voice = 32000"
  "m_sampleRateOut example_voice = 48000"
  "m_resetSampleRate example_voice = False"
  "m_deferredSampleRate example_voice = 0"
  "m_setPitchRatio example_voice = False"
  "m_pitchRatio example_voice = 1"
  "m_slew example_voice = False"
  "m_silentOut example_voice = False"
  "m_sendMatrices example_voice = []"
  by (simp_all add: example_voice_def)


lemma example_soxr_sel:
  "create_fails example_soxr = False"
  "set_io_ratio_fails example_soxr = False"
  "input_requests example_soxr = [4]"
  "output_done example_soxr = 3"
  "out16 example_soxr = (\<lambda>i. of_nat (10 + i))"
  "out32 example_soxr = (\<lambda>i. of_nat (10 + i))"
  "outFlt example_soxr = (\<lambda>i. int (10 + i))"
  by (simp_all add: example_soxr_def)

lemma example_client_sel:
  "preSupplyAudio example_client = (\<lambda>hist dt. [])"
  "supplyAudio example_client = (\<lambda>hist frames. ([1, 2, 3], frames))"
  "routeAudio16 example_client = (\<lambda>hist frames chans dt bus block. block)"
  "routeAudio32 example_client = (\<lambda>hist frames chans dt bus block. block)"
  "routeAudioFlt example_client = (\<lambda>hist frames chans dt bus block. block)"
  by (simp_all add: example_client_def)



theorem scratch_vectors_cover_max_demand_witness:
  "calls_in_range example_calls
   \<and> max_demand ScratchIn example_calls = 10
   \<and> 10 \<le> scratch_size ScratchIn (run_calls example_calls example_world)
   \<and> max_demand Scratch16Pre example_calls = 3
   \<and> 3 \<le> scratch_size Scratch16Pre (run_calls example_calls example_world)"
proof -
  have r: "calls_in_range example_calls"
    by (simp add: example_calls_def calls_in_range_def in_range_def example_soxr_sel)
  have m: "max_demand ScratchIn example_calls = 10" "max_demand Scratch16Pre example_calls = 3"
    by (simp_all add: example_calls_def max_demand_def example_soxr_sel example_voice_sel)
  show ?thesis
    using r m
      scratch_vectors_cover_max_demand [OF r, where vec = ScratchIn and w = example_world]
      scratch_vectors_cover_max_demand [OF r, where vec = Scratch16Pre and w = example_world]
    by simp
qed

end
